theory Spec2Isabelle
  imports Complex_Main "HOL-Library.Sublist"
begin

section \<open>Data model\<close>

text \<open>
  The services of the repository (\<^verbatim>\<open>unitService.ts\<close>, \<^verbatim>\<open>transactionService.ts\<close>) are
  sequences of calls to a storage collaborator. The tables are lists of rows in insertion
  order. Quantities are the integers of the \<^verbatim>\<open>units\<close> and \<^verbatim>\<open>transactions\<close> tables, dates are
  calendar day numbers (the order of the \<^verbatim>\<open>expiry_date\<close> column), a drug's strength is a
  rational number, and identifiers are strings.
\<close>

type_synonym date = int

record drug_row =
  d_drug_id :: string
  medication_name :: string
  generic_name :: string
  strength :: rat
  strength_unit :: string
  ndc_id :: string
  form :: string

record lot_row =
  l_lot_id :: string
  source :: string
  l_note :: "string option"
  location_id :: string
  l_clinic_id :: string
  max_capacity :: "int option"

record user_row =
  u_user_id :: string
  username :: string
  email :: string

record unit_row =
  unit_id :: string
  total_quantity :: int
  available_quantity :: int
  lot_id :: string
  expiry_date :: date
  date_created :: int
  user_id :: string
  drug_id :: string
  qr_code :: "string option"
  optional_notes :: "string option"
  manufacturer_lot_number :: "string option"
  clinic_id :: string

datatype tx_type = adjust | check_out | check_in

record transaction_row =
  transaction_id :: string
  timestamp :: int
  tx_type :: tx_type
  tx_quantity :: int
  tx_unit_id :: string
  patient_name :: "string option"
  patient_reference_id :: "string option"
  tx_user_id :: string
  tx_notes :: "string option"
  tx_clinic_id :: string

text \<open>
  The state the services act on: the five tables, the identifier counter and the clock of
  the database (\<open>now\<close>, and the calendar day \<open>today\<close>), the outcomes of the coming storage calls (\<open>faults\<close>: \<open>Some msg\<close> makes the
  next call fail with that message, an exhausted list means every further call succeeds),
  and what was written with \<^verbatim>\<open>console.error\<close>.
\<close>

record state =
  units :: "unit_row list"
  transactions :: "transaction_row list"
  drugs :: "drug_row list"
  lots :: "lot_row list"
  users :: "user_row list"
  next_id :: nat
  now :: int
  today :: date
  faults :: "string option list"
  console :: "string list"

text \<open>
  Every \<^verbatim>\<open>throw new Error(...)\<close> of the services is a constructor, grouped by the kind of
  failure; \<open>message\<close> is the text the source builds. \<open>TypeError\<close> is the runtime's own
  error on reading a property of \<^verbatim>\<open>null\<close>.
\<close>

datatype error =
    ValidationError string
  | NotFound string
  | NoMedicationMatching string rat string
  | CapacityExceeded int int int
  | InsufficientQuantity int int
  | AllocationFailed string
  | PersistenceError string
  | TypeError

section \<open>Strings and numbers of the runtime\<close>

definition digit_char :: "nat \<Rightarrow> char" where
  "digit_char n = char_of (48 + n)"

fun show_nat :: "nat \<Rightarrow> string" where
  "show_nat n = (if n < 10 then [digit_char n] else show_nat (n div 10) @ [digit_char (n mod 10)])"

declare show_nat.simps [simp del]

text \<open>\<^verbatim>\<open>Number.prototype.toString\<close> and template interpolation, on integers.\<close>

definition show_int :: "int \<Rightarrow> string" where
  "show_int i = (if i < 0 then CHR ''-'' # show_nat (nat (- i)) else show_nat (nat i))"

text \<open>
  A drug's strength in a message: a whole number prints as the integer it is. The runtime
  prints any other strength as the decimal expansion of the double; here it is written as
  a fraction.
\<close>

definition show_rat :: "rat \<Rightarrow> string" where
  "show_rat x = (case quotient_of x of (n, d) \<Rightarrow>
     if d = 1 then show_int n else show_int n @ ''/'' @ show_int d)"

text \<open>\<^verbatim>\<open>String.prototype.toLowerCase\<close> on ASCII letters.\<close>

definition lower_char :: "char \<Rightarrow> char" where
  "lower_char c = (let n = (of_char c :: nat) in if 65 \<le> n \<and> n \<le> 90 then char_of (n + 32) else c)"

definition toLowerCase :: "string \<Rightarrow> string" where
  "toLowerCase s = map lower_char s"

text \<open>\<^verbatim>\<open>s.includes(t)\<close>: \<open>t\<close> occurs in \<open>s\<close> as a contiguous substring.\<close>

definition str_includes :: "string \<Rightarrow> string \<Rightarrow> bool" where
  "str_includes s t = sublist t s"

text \<open>Truthiness of an optional string and of an optional number.\<close>

fun truthy :: "string option \<Rightarrow> bool" where
  "truthy None = False"
| "truthy (Some s) = (s \<noteq> [])"

fun truthy_num :: "rat option \<Rightarrow> bool" where
  "truthy_num None = False"
| "truthy_num (Some x) = (x \<noteq> 0)"

fun message :: "error \<Rightarrow> string" where
  "message (ValidationError m) = m"
| "message (NotFound m) = m"
| "message (NoMedicationMatching n st u) =
     ''No medication found matching: '' @ n @ '' '' @ show_rat st @ u"
| "message (CapacityExceeded cur cap n) =
     ''Cannot add unit: Would exceed lot capacity. '' @
     ''Current: '' @ show_int cur @ ''/'' @ show_int cap @ '', '' @
     ''Attempting to add: '' @ show_int n @ '', '' @
     ''Available: '' @ show_int (cap - cur)"
| "message (InsufficientQuantity a r) =
     ''Insufficient quantity. Available: '' @ show_int a @ '', Requested: '' @ show_int r"
| "message (AllocationFailed m) = m"
| "message (PersistenceError m) = m"
| "message TypeError = ''Cannot read properties of null''"

section \<open>The storage collaborator\<close>

text \<open>One round trip to the storage: the outcome planned for it is consumed.\<close>

definition storage_call :: "state \<Rightarrow> string option \<times> state" where
  "storage_call s = (case faults s of [] \<Rightarrow> (None, s) | f # fs \<Rightarrow> (f, s\<lparr>faults := fs\<rparr>))"

text \<open>\<^verbatim>\<open>.single()\<close>: exactly one row, anything else is no data.\<close>

fun single :: "'a list \<Rightarrow> 'a option" where
  "single [x] = Some x"
| "single _ = None"

definition gen_id :: "nat \<Rightarrow> string" where
  "gen_id n = ''id-'' @ show_nat n"

text \<open>\<^verbatim>\<open>console.error(label, error)\<close>.\<close>

definition console_error :: "string \<Rightarrow> string \<Rightarrow> state \<Rightarrow> state" where
  "console_error label e s = s\<lparr>console := console s @ [label @ '' '' @ e]\<rparr>"

text \<open>The joins \<^verbatim>\<open>drug:drugs(*)\<close>, \<^verbatim>\<open>lot:lots(*)\<close>, \<^verbatim>\<open>user:users(*)\<close> of a unit row.\<close>

definition join_drug :: "state \<Rightarrow> unit_row \<Rightarrow> drug_row option" where
  "join_drug s u = find (\<lambda>d. d_drug_id d = drug_id u) (drugs s)"

definition join_lot :: "state \<Rightarrow> unit_row \<Rightarrow> lot_row option" where
  "join_lot s u = find (\<lambda>l. l_lot_id l = lot_id u) (lots s)"

definition join_user :: "state \<Rightarrow> string \<Rightarrow> user_row option" where
  "join_user s uid = find (\<lambda>x. u_user_id x = uid) (users s)"

text \<open>
  \<^verbatim>\<open>from('units').update({available_quantity: v}).eq('unit_id', uid).eq('clinic_id', cid)\<close>:
  the error of the call if it fails, the rows that match rewritten otherwise.
\<close>

definition set_available :: "string \<Rightarrow> string \<Rightarrow> int \<Rightarrow> unit_row list \<Rightarrow> unit_row list" where
  "set_available uid cid v rows =
     map (\<lambda>r. if unit_id r = uid \<and> clinic_id r = cid then r\<lparr>available_quantity := v\<rparr> else r) rows"

definition update_available :: "string \<Rightarrow> string \<Rightarrow> int \<Rightarrow> state \<Rightarrow> string option \<times> state" where
  "update_available uid cid v s =
     (case storage_call s of
        (Some e, s1) \<Rightarrow> (Some e, s1)
      | (None, s1) \<Rightarrow> (None, s1\<lparr>units := set_available uid cid v (units s1)\<rparr>))"

text \<open>
  \<^verbatim>\<open>from('units').select(...).eq('unit_id', uid).eq('clinic_id', cid).single()\<close>.
\<close>

definition select_unit :: "string \<Rightarrow> string \<Rightarrow> state \<Rightarrow> unit_row option \<times> state" where
  "select_unit uid cid s =
     (case storage_call s of
        (Some e, s1) \<Rightarrow> (None, s1)
      | (None, s1) \<Rightarrow> (single (filter (\<lambda>r. unit_id r = uid \<and> clinic_id r = cid) (units s1)), s1))"

text \<open>
  \<^verbatim>\<open>from('transactions').insert({...}).select('*').single()\<close>: the database gives the row
  its identifier and its timestamp.
\<close>

definition insert_transaction :: "transaction_row \<Rightarrow> state \<Rightarrow> (string + transaction_row) \<times> state" where
  "insert_transaction t s =
     (case storage_call s of
        (Some e, s1) \<Rightarrow> (Inl e, s1)
      | (None, s1) \<Rightarrow>
          (let row = t\<lparr>transaction_id := gen_id (next_id s1), timestamp := now s1\<rparr>
           in (Inr row, s1\<lparr>transactions := transactions s1 @ [row], next_id := Suc (next_id s1)\<rparr>)))"

text \<open>A transaction as the services return it: the row with its joined unit and user.\<close>

record Transaction =
  tx_row :: transaction_row
  tx_unit :: "unit_row option"
  tx_user :: "user_row option"

definition formatTransaction :: "transaction_row \<Rightarrow> unit_row option \<Rightarrow> user_row option \<Rightarrow> Transaction" where
  "formatTransaction t u usr = \<lparr>tx_row = t, tx_unit = u, tx_user = usr\<rparr>"

text \<open>The error of \<^verbatim>\<open>.single()\<close> when the rows are not exactly one.\<close>

definition not_single :: string where
  "not_single = ''JSON object requested, multiple (or no) rows returned''"

text \<open>
  The read-back \<^verbatim>\<open>from('transactions').select(joins).eq('transaction_id', id).single()\<close>.
\<close>

definition fetch_transaction :: "string \<Rightarrow> state \<Rightarrow> (string + Transaction) \<times> state" where
  "fetch_transaction tid s =
     (case storage_call s of
        (Some e, s1) \<Rightarrow> (Inl e, s1)
      | (None, s1) \<Rightarrow>
          (case single (filter (\<lambda>t. transaction_id t = tid) (transactions s1)) of
             None \<Rightarrow> (Inl not_single, s1)
           | Some t \<Rightarrow>
               (Inr (formatTransaction t
                       (find (\<lambda>r. unit_id r = tx_unit_id t) (units s1))
                       (join_user s1 (tx_user_id t))), s1)))"

section \<open>FEFO checkout (\<^verbatim>\<open>checkOutMedicationFEFO\<close>)\<close>

record FEFOCheckoutRequest =
  fr_ndcId :: "string option"
  fr_medicationName :: "string option"
  fr_strength :: "rat option"
  fr_strengthUnit :: "string option"
  fr_quantity :: int
  fr_patientName :: "string option"
  fr_patientReferenceId :: "string option"
  fr_notes :: "string option"

record used_unit =
  unitId :: string
  quantityTaken :: int
  expiryDate :: date
  medicationName :: string

record FEFOCheckoutResult =
  fefo_transactions :: "Transaction list"
  totalQuantityDispensed :: int
  unitsUsed :: "used_unit list"

text \<open>
  The operator \<^verbatim>\<open>ILIKE\<close> of the database: \<open>%\<close> stands for any run of characters, \<open>_\<close> for
  any one character, letters match without regard to case.
\<close>

fun like :: "string \<Rightarrow> string \<Rightarrow> bool" where
  "like [] s = (s = [])"
| "like (p # ps) [] = (p = CHR ''%'' \<and> like ps [])"
| "like (p # ps) (c # cs) =
     (if p = CHR ''%'' then like ps (c # cs) \<or> like (p # ps) cs
      else (p = CHR ''_'' \<or> p = c) \<and> like ps cs)"

definition ilike :: "string \<Rightarrow> string \<Rightarrow> bool" where
  "ilike v pat = like (toLowerCase pat) (toLowerCase v)"

text \<open>
  The drug identities of the request: the single drug with the NDC, or every drug with
  the name, strength and unit. A failed call leaves no data, which the source reports as
  nothing found.
\<close>

definition resolve_drugs :: "FEFOCheckoutRequest \<Rightarrow> state \<Rightarrow> (error + string list) \<times> state" where
  "resolve_drugs input s =
     (case storage_call s of (f, s1) \<Rightarrow>
        if truthy (fr_ndcId input) then
          (case (if f = None then single (filter (\<lambda>d. ndc_id d = the (fr_ndcId input)) (drugs s1))
                 else None) of
             None \<Rightarrow> (Inl (NotFound (''No medication found with NDC: '' @ the (fr_ndcId input))), s1)
           | Some d \<Rightarrow> (Inr [d_drug_id d], s1))
        else
          (let found = (if f = None
                        then filter (\<lambda>d. ilike (medication_name d) (the (fr_medicationName input))
                                        \<and> strength d = the (fr_strength input)
                                        \<and> strength_unit d = the (fr_strengthUnit input)) (drugs s1)
                        else [])
           in if found = []
              then (Inl (NoMedicationMatching (the (fr_medicationName input))
                           (the (fr_strength input)) (the (fr_strengthUnit input))), s1)
              else (Inr (map d_drug_id found), s1)))"

text \<open>
  The units query: the tenant's units of these drugs with stock left, by ascending expiry
  date (units of one date stay in table order), each with its joined drug.
\<close>

definition fefo_rows :: "string \<Rightarrow> string list \<Rightarrow> state \<Rightarrow> (unit_row \<times> drug_row option) list" where
  "fefo_rows clinicId drugIds s =
     map (\<lambda>u. (u, join_drug s u))
       (sort_key expiry_date
          (filter (\<lambda>u. clinic_id u = clinicId \<and> 0 < available_quantity u \<and> drug_id u \<in> set drugIds)
             (units s)))"

definition fetch_units :: "string \<Rightarrow> string list \<Rightarrow> state \<Rightarrow> (string + (unit_row \<times> drug_row option) list) \<times> state" where
  "fetch_units clinicId drugIds s =
     (case storage_call s of
        (Some e, s1) \<Rightarrow> (Inl e, s1)
      | (None, s1) \<Rightarrow> (Inr (fefo_rows clinicId drugIds s1), s1))"

text \<open>
  The rollback loop \<^verbatim>\<open>for (const usedUnit of unitsUsed)\<close>: each unit is read again and, when
  the read gives a row, written back with the taken quantity added; the outcome of the
  write is not looked at.
\<close>

definition rollback_step :: "string \<Rightarrow> used_unit \<Rightarrow> state \<Rightarrow> state" where
  "rollback_step clinicId x s =
     (case select_unit (unitId x) clinicId s of
        (None, s1) \<Rightarrow> s1
      | (Some r, s1) \<Rightarrow>
          snd (update_available (unitId x) clinicId (available_quantity r + quantityTaken x) s1))"

fun rollback_used :: "string \<Rightarrow> used_unit list \<Rightarrow> state \<Rightarrow> state" where
  "rollback_used clinicId [] s = s"
| "rollback_used clinicId (x # xs) s = rollback_used clinicId xs (rollback_step clinicId x s)"

definition or_unknown :: "string \<Rightarrow> string" where
  "or_unknown e = (if e = [] then ''Unknown error'' else e)"

definition fefo_note :: "FEFOCheckoutRequest \<Rightarrow> nat \<Rightarrow> string" where
  "fefo_note input n =
     (if truthy (fr_notes input) then the (fr_notes input)
      else ''FEFO checkout - Unit '' @ show_nat (n + 1) @ '' of batch'')"

text \<open>
  The loop \<^verbatim>\<open>for (const unit of units)\<close> with its accumulators \<^verbatim>\<open>remainingQuantity\<close>,
  \<^verbatim>\<open>transactions\<close> and \<^verbatim>\<open>unitsUsed\<close>.
\<close>

fun fefo_loop :: "FEFOCheckoutRequest \<Rightarrow> string \<Rightarrow> string \<Rightarrow> (unit_row \<times> drug_row option) list \<Rightarrow>
    int \<Rightarrow> Transaction list \<Rightarrow> used_unit list \<Rightarrow> state \<Rightarrow> (error + FEFOCheckoutResult) \<times> state" where
  "fefo_loop input userId clinicId [] remaining txs used s =
     (Inr \<lparr>fefo_transactions = txs, totalQuantityDispensed = fr_quantity input, unitsUsed = used\<rparr>, s)"
| "fefo_loop input userId clinicId ((unit, drug) # rest) remaining txs used s =
     (if remaining \<le> 0
      then (Inr \<lparr>fefo_transactions = txs, totalQuantityDispensed = fr_quantity input, unitsUsed = used\<rparr>, s)
      else
        let quantityToTake = min remaining (available_quantity unit);
            newAvailableQuantity = available_quantity unit - quantityToTake
        in
        case update_available (unit_id unit) clinicId newAvailableQuantity s of
          (Some e, s1) \<Rightarrow>
            (Inl (AllocationFailed (''Failed to update unit: '' @ e)),
             rollback_used clinicId used (console_error ''FEFO: Error updating unit quantity:'' e s1))
        | (None, s1) \<Rightarrow>
            (case insert_transaction
                    \<lparr>transaction_id = [], timestamp = 0, tx_type = check_out,
                     tx_quantity = quantityToTake, tx_unit_id = unit_id unit,
                     patient_name = fr_patientName input,
                     patient_reference_id = fr_patientReferenceId input,
                     tx_user_id = userId, tx_notes = Some (fefo_note input (length used)),
                     tx_clinic_id = clinicId\<rparr> s1 of
               (Inl e, s2) \<Rightarrow>
                 (Inl (AllocationFailed (''Failed to create transaction: '' @ or_unknown e)),
                  snd (update_available (unit_id unit) clinicId (available_quantity unit)
                         (rollback_used clinicId used
                            (console_error ''FEFO: Error creating transaction:'' e s2))))
             | (Inr t, s2) \<Rightarrow>
                 (case fetch_transaction (transaction_id t) s2 of
                    (fetched, s3) \<Rightarrow>
                      (let s4 = (case fetched of
                                   Inl fe \<Rightarrow> console_error ''FEFO: Error fetching complete transaction:'' fe s3
                                 | Inr c \<Rightarrow> s3)
                       in case drug of
                         None \<Rightarrow> (Inl TypeError, s4)
                       | Some d \<Rightarrow>
                           fefo_loop input userId clinicId rest (remaining - quantityToTake)
                             (txs @ [case fetched of Inr c \<Rightarrow> c
                                     | Inl fe \<Rightarrow> formatTransaction t None None])
                             (used @ [\<lparr>unitId = unit_id unit, quantityTaken = quantityToTake,
                                       expiryDate = expiry_date unit,
                                       medicationName = medication_name d\<rparr>])
                             s4))))"

definition checkOutMedicationFEFO :: "FEFOCheckoutRequest \<Rightarrow> string \<Rightarrow> string \<Rightarrow> state \<Rightarrow>
    (error + FEFOCheckoutResult) \<times> state" where
  "checkOutMedicationFEFO input userId clinicId s =
     (if \<not> truthy (fr_ndcId input) \<and>
         (\<not> truthy (fr_medicationName input) \<or> \<not> truthy_num (fr_strength input)
          \<or> \<not> truthy (fr_strengthUnit input))
      then (Inl (ValidationError ''Must provide either NDC or medication name with strength and unit''), s)
      else if fr_quantity input \<le> 0
      then (Inl (ValidationError ''Quantity must be greater than 0''), s)
      else
        case resolve_drugs input s of
          (Inl err, s1) \<Rightarrow> (Inl err, s1)
        | (Inr drugIds, s1) \<Rightarrow>
            (case fetch_units clinicId drugIds s1 of
               (Inl e, s2) \<Rightarrow> (Inl (PersistenceError (''Failed to fetch units: '' @ e)), s2)
             | (Inr rows, s2) \<Rightarrow>
                 if rows = [] then (Inl (NotFound ''No units available for this medication''), s2)
                 else
                   let totalAvailable = sum_list (map (available_quantity \<circ> fst) rows)
                   in if totalAvailable < fr_quantity input
                      then (Inl (InsufficientQuantity totalAvailable (fr_quantity input)), s2)
                      else fefo_loop input userId clinicId rows (fr_quantity input) [] [] s2))"

section \<open>Single-unit checkout (\<^verbatim>\<open>checkOutUnit\<close>)\<close>

record CheckOutRequest =
  co_unitId :: string
  co_quantity :: int
  co_patientName :: "string option"
  co_patientReferenceId :: "string option"
  co_notes :: "string option"

definition checkOutUnit :: "CheckOutRequest \<Rightarrow> string \<Rightarrow> string \<Rightarrow> state \<Rightarrow>
    (error + Transaction) \<times> state" where
  "checkOutUnit input userId clinicId s =
     (case select_unit (co_unitId input) clinicId s of
        (None, s1) \<Rightarrow> (Inl (NotFound ''Unit not found''), s1)
      | (Some unit, s1) \<Rightarrow>
          if available_quantity unit < co_quantity input
          then (Inl (InsufficientQuantity (available_quantity unit) (co_quantity input)), s1)
          else
            let newAvailableQuantity = available_quantity unit - co_quantity input in
            case update_available (co_unitId input) clinicId newAvailableQuantity s1 of
              (Some e, s2) \<Rightarrow>
                (Inl (PersistenceError (''Failed to update unit: '' @ e)),
                 console_error ''Error updating unit quantity:'' e s2)
            | (None, s2) \<Rightarrow>
                (case insert_transaction
                        \<lparr>transaction_id = [], timestamp = 0, tx_type = check_out,
                         tx_quantity = co_quantity input, tx_unit_id = co_unitId input,
                         patient_name = co_patientName input,
                         patient_reference_id = co_patientReferenceId input,
                         tx_user_id = userId, tx_notes = co_notes input,
                         tx_clinic_id = clinicId\<rparr> s2 of
                   (Inl e, s3) \<Rightarrow>
                     (Inl (PersistenceError (''Failed to create transaction: '' @ or_unknown e)),
                      snd (update_available (co_unitId input) clinicId (available_quantity unit)
                             (console_error ''Error creating checkout transaction:'' e s3)))
                 | (Inr t, s3) \<Rightarrow>
                     (case fetch_transaction (transaction_id t) s3 of
                        (Inl fe, s4) \<Rightarrow>
                          (Inr (formatTransaction t None None),
                           console_error ''Error fetching complete transaction:'' fe s4)
                      | (Inr c, s4) \<Rightarrow> (Inr c, s4))))"

section \<open>Correcting a transaction (\<^verbatim>\<open>updateTransaction\<close>)\<close>

record transaction_updates =
  tu_quantity :: "int option"
  tu_notes :: "string option"

definition apply_transaction_updates :: "transaction_updates \<Rightarrow> transaction_row \<Rightarrow> transaction_row" where
  "apply_transaction_updates up t =
     (let t1 = (case tu_quantity up of None \<Rightarrow> t | Some q \<Rightarrow> t\<lparr>tx_quantity := q\<rparr>)
      in (case tu_notes up of None \<Rightarrow> t1 | Some n \<Rightarrow> t1\<lparr>tx_notes := Some n\<rparr>))"

text \<open>
  \<^verbatim>\<open>from('transactions').update(updateData).eq('transaction_id', id).eq('clinic_id', cid)
  .select(joins).single()\<close>: a change that does not touch exactly one row is not applied.
\<close>

definition updateTransaction :: "string \<Rightarrow> transaction_updates \<Rightarrow> string \<Rightarrow> state \<Rightarrow>
    (error + Transaction) \<times> state" where
  "updateTransaction transactionId updates clinicId s =
     (case storage_call s of
        (Some e, s1) \<Rightarrow> (Inl (PersistenceError (''Failed to update transaction: '' @ e)), s1)
      | (None, s1) \<Rightarrow>
          (case single (filter (\<lambda>t. transaction_id t = transactionId \<and> tx_clinic_id t = clinicId)
                          (transactions s1)) of
             None \<Rightarrow> (Inl (PersistenceError (''Failed to update transaction: '' @ not_single)), s1)
           | Some t \<Rightarrow>
               (let t' = apply_transaction_updates updates t;
                    s2 = s1\<lparr>transactions :=
                            map (\<lambda>r. if transaction_id r = transactionId \<and> tx_clinic_id r = clinicId
                                      then apply_transaction_updates updates r else r)
                              (transactions s1)\<rparr>
                in (Inr (formatTransaction t'
                           (find (\<lambda>r. unit_id r = tx_unit_id t') (units s2))
                           (join_user s2 (tx_user_id t'))), s2))))"

section \<open>The unit store (\<^verbatim>\<open>unitService.ts\<close>)\<close>

text \<open>A unit as the services return it: the row with its joined drug, lot and user.\<close>

record Unit =
  u_row :: unit_row
  u_drug :: "drug_row option"
  u_lot :: "lot_row option"
  u_user :: "user_row option"

type_synonym joined_unit = "unit_row \<times> drug_row option \<times> lot_row option \<times> user_row option"

definition join_unit :: "state \<Rightarrow> unit_row \<Rightarrow> joined_unit" where
  "join_unit s u = (u, join_drug s u, join_lot s u, join_user s (user_id u))"

text \<open>
  \<^verbatim>\<open>formatUnit\<close> reads \<^verbatim>\<open>unit.drug.drug_id\<close>, \<^verbatim>\<open>unit.lot.lot_id\<close> and \<^verbatim>\<open>unit.user.user_id\<close>:
  a join that gave \<^verbatim>\<open>null\<close> is a TypeError.
\<close>

fun formatUnit :: "joined_unit \<Rightarrow> error + Unit" where
  "formatUnit (u, Some d, Some l, Some usr) =
     Inr \<lparr>u_row = u, u_drug = Some d, u_lot = Some l, u_user = Some usr\<rparr>"
| "formatUnit (u, _, _, _) = Inl TypeError"

text \<open>\<^verbatim>\<open>rows.map(formatUnit)\<close>: the first row that throws ends the map.\<close>

fun format_units :: "joined_unit list \<Rightarrow> error + Unit list" where
  "format_units [] = Inr []"
| "format_units (j # js) =
     (case formatUnit j of
        Inl e \<Rightarrow> Inl e
      | Inr u \<Rightarrow> (case format_units js of Inl e \<Rightarrow> Inl e | Inr us \<Rightarrow> Inr (u # us)))"

subsection \<open>\<^verbatim>\<open>createUnit\<close>\<close>

record drugData =
  dd_medicationName :: string
  dd_genericName :: string
  dd_strength :: rat
  dd_strengthUnit :: string
  dd_ndcId :: string
  dd_form :: string

record CreateUnitRequest =
  cu_totalQuantity :: int
  cu_availableQuantity :: int
  cu_lotId :: string
  cu_expiryDate :: date
  cu_drugId :: "string option"
  cu_drugData :: "drugData option"
  cu_optionalNotes :: "string option"
  cu_manufacturerLotNumber :: "string option"

text \<open>
  Modelled from the spec: \<^verbatim>\<open>getLotById\<close> of \<^verbatim>\<open>locationService\<close>, which is not among the
  sources. The spec has \<^verbatim>\<open>createUnit\<close> fail when the "lot does not exist in tenant": the
  lot of that identifier in that clinic, if there is one.
\<close>

definition getLotById :: "string \<Rightarrow> string \<Rightarrow> state \<Rightarrow> lot_row option" where
  "getLotById lotId clinicId s = find (\<lambda>l. l_lot_id l = lotId \<and> l_clinic_id l = clinicId) (lots s)"

text \<open>
  Modelled from the spec: \<^verbatim>\<open>getLotCurrentCapacity\<close> of \<^verbatim>\<open>locationService\<close>, which is not
  among the sources. The spec's Lot Capacity Tracker: "sum of totalQuantity across all
  units in that lot, recomputed on demand".
\<close>

definition getLotCurrentCapacity :: "string \<Rightarrow> state \<Rightarrow> int" where
  "getLotCurrentCapacity lotId s =
     sum_list (map total_quantity (filter (\<lambda>u. lot_id u = lotId) (units s)))"

text \<open>
  \<^verbatim>\<open>from('units').insert({...}).select('*').single()\<close>: the database gives the row its
  identifier and its creation time; the QR code is not set yet.
\<close>

definition insert_unit :: "unit_row \<Rightarrow> state \<Rightarrow> (string + unit_row) \<times> state" where
  "insert_unit u s =
     (case storage_call s of
        (Some e, s1) \<Rightarrow> (Inl e, s1)
      | (None, s1) \<Rightarrow>
          (let row = u\<lparr>unit_id := gen_id (next_id s1), date_created := now s1\<rparr>
           in (Inr row, s1\<lparr>units := units s1 @ [row], next_id := Suc (next_id s1)\<rparr>)))"

text \<open>\<^verbatim>\<open>from('units').update({qr_code: id}).eq('unit_id', id)\<close>.\<close>

definition update_qr_code :: "string \<Rightarrow> state \<Rightarrow> string option \<times> state" where
  "update_qr_code uid s =
     (case storage_call s of
        (Some e, s1) \<Rightarrow> (Some e, s1)
      | (None, s1) \<Rightarrow>
          (None, s1\<lparr>units := map (\<lambda>r. if unit_id r = uid then r\<lparr>qr_code := Some uid\<rparr> else r)
                                 (units s1)\<rparr>))"

text \<open>\<^verbatim>\<open>from('units').select(joins).eq('unit_id', id).single()\<close>.\<close>

definition fetch_unit :: "string \<Rightarrow> state \<Rightarrow> (string + joined_unit) \<times> state" where
  "fetch_unit uid s =
     (case storage_call s of
        (Some e, s1) \<Rightarrow> (Inl e, s1)
      | (None, s1) \<Rightarrow>
          (case single (filter (\<lambda>r. unit_id r = uid) (units s1)) of
             None \<Rightarrow> (Inl not_single, s1)
           | Some r \<Rightarrow> (Inr (join_unit s1 r), s1)))"

text \<open>
  The drug of the new unit: \<^verbatim>\<open>input.drugId\<close>, or the answer of the drug catalogue when only
  \<^verbatim>\<open>drugData\<close> is given. The catalogue's \<^verbatim>\<open>getOrCreateDrug\<close> (of \<^verbatim>\<open>drugService\<close>, not among
  the sources) is a parameter: it gives a drug identifier or throws, and may change the
  state.
\<close>

definition resolve_drug_id :: "(drugData \<Rightarrow> state \<Rightarrow> (error + string) \<times> state) \<Rightarrow>
    CreateUnitRequest \<Rightarrow> state \<Rightarrow> (error + string option) \<times> state" where
  "resolve_drug_id getOrCreateDrug input s =
     (if cu_drugData input \<noteq> None \<and> \<not> truthy (cu_drugId input)
      then (case getOrCreateDrug (the (cu_drugData input)) s of
              (Inl e, s0) \<Rightarrow> (Inl e, s0)
            | (Inr d, s0) \<Rightarrow> (Inr (Some d), s0))
      else (Inr (cu_drugId input), s))"

text \<open>
  The three steps of \<^verbatim>\<open>createUnit\<close> after the unit is inserted. Writing the QR code and
  recording the check-in only log a failure; the read-back with the joins falls back to
  the inserted row when it fails.
\<close>

definition set_qr_code :: "string \<Rightarrow> state \<Rightarrow> state" where
  "set_qr_code uid s =
     (case update_qr_code uid s of
        (Some qe, s') \<Rightarrow> console_error ''Error updating QR code:'' qe s'
      | (None, s') \<Rightarrow> s')"

definition record_check_in :: "CreateUnitRequest \<Rightarrow> string \<Rightarrow> string \<Rightarrow> string \<Rightarrow> state \<Rightarrow> state" where
  "record_check_in input userId clinicId uid s =
     (case insert_transaction
             \<lparr>transaction_id = [], timestamp = 0, tx_type = check_in,
              tx_quantity = cu_totalQuantity input, tx_unit_id = uid, patient_name = None,
              patient_reference_id = None, tx_user_id = userId,
              tx_notes = Some ''Initial check-in'', tx_clinic_id = clinicId\<rparr> s of
        (Inl te, s') \<Rightarrow> console_error ''Error creating transaction:'' te s'
      | (Inr t, s') \<Rightarrow> s')"

definition return_created :: "unit_row \<Rightarrow> state \<Rightarrow> (error + Unit) \<times> state" where
  "return_created unit s =
     (case fetch_unit (unit_id unit) s of
        (Inl fe, s') \<Rightarrow>
          (Inr \<lparr>u_row = unit, u_drug = None, u_lot = None, u_user = None\<rparr>,
           console_error ''Error fetching complete unit:'' fe s')
      | (Inr completeUnit, s') \<Rightarrow> (formatUnit completeUnit, s'))"

definition createUnit :: "(drugData \<Rightarrow> state \<Rightarrow> (error + string) \<times> state) \<Rightarrow>
    CreateUnitRequest \<Rightarrow> string \<Rightarrow> string \<Rightarrow> state \<Rightarrow> (error + Unit) \<times> state" where
  "createUnit getOrCreateDrug input userId clinicId s =
     (case resolve_drug_id getOrCreateDrug input s of
        (Inl e, s0) \<Rightarrow> (Inl e, s0)
      | (Inr drugId, s0) \<Rightarrow>
          if \<not> truthy drugId
          then (Inl (ValidationError ''Either drugId or drugData must be provided''), s0)
          else
            case getLotById (cu_lotId input) clinicId s0 of
              None \<Rightarrow> (Inl (NotFound ''Lot not found''), s0)
            | Some lot \<Rightarrow>
                if (case max_capacity lot of
                      None \<Rightarrow> False
                    | Some cap \<Rightarrow> cap < getLotCurrentCapacity (cu_lotId input) s0 + cu_totalQuantity input)
                then (Inl (CapacityExceeded (getLotCurrentCapacity (cu_lotId input) s0)
                             (the (max_capacity lot)) (cu_totalQuantity input)), s0)
                else
                  case insert_unit
                         \<lparr>unit_id = [], total_quantity = cu_totalQuantity input,
                          available_quantity = cu_availableQuantity input,
                          lot_id = cu_lotId input, expiry_date = cu_expiryDate input,
                          date_created = 0, user_id = userId, drug_id = the drugId,
                          qr_code = None, optional_notes = cu_optionalNotes input,
                          manufacturer_lot_number = cu_manufacturerLotNumber input,
                          clinic_id = clinicId\<rparr> s0 of
                    (Inl e, s1) \<Rightarrow>
                      (Inl (PersistenceError (''Failed to create unit: '' @ or_unknown e)),
                       console_error ''[UnitService] Error creating unit:'' e s1)
                  | (Inr unit, s1) \<Rightarrow>
                      return_created (unit\<lparr>qr_code := Some (unit_id unit)\<rparr>)
                        (record_check_in input userId clinicId (unit_id unit)
                           (set_qr_code (unit_id unit) s1)))"

subsection \<open>\<^verbatim>\<open>updateUnit\<close>\<close>

record unit_updates =
  up_totalQuantity :: "int option"
  up_availableQuantity :: "int option"
  up_expiryDate :: "date option"
  up_optionalNotes :: "string option"

definition apply_unit_updates :: "unit_updates \<Rightarrow> unit_row \<Rightarrow> unit_row" where
  "apply_unit_updates up r =
     (let r1 = (case up_totalQuantity up of None \<Rightarrow> r | Some v \<Rightarrow> r\<lparr>total_quantity := v\<rparr>);
          r2 = (case up_availableQuantity up of None \<Rightarrow> r1 | Some v \<Rightarrow> r1\<lparr>available_quantity := v\<rparr>);
          r3 = (case up_expiryDate up of None \<Rightarrow> r2 | Some v \<Rightarrow> r2\<lparr>expiry_date := v\<rparr>)
      in (case up_optionalNotes up of None \<Rightarrow> r3 | Some v \<Rightarrow> r3\<lparr>optional_notes := Some v\<rparr>))"

text \<open>
  \<^verbatim>\<open>from('units').update(updateData).eq('unit_id', id).eq('clinic_id', cid).select(joins)
  .single()\<close>, then \<^verbatim>\<open>formatUnit\<close>. A change that does not touch exactly one row is not
  applied.
\<close>

definition updateUnit :: "string \<Rightarrow> unit_updates \<Rightarrow> string \<Rightarrow> state \<Rightarrow> (error + Unit) \<times> state" where
  "updateUnit uid updates clinicId s =
     (case storage_call s of
        (Some e, s1) \<Rightarrow> (Inl (PersistenceError (''Failed to update unit: '' @ e)), s1)
      | (None, s1) \<Rightarrow>
          (case single (filter (\<lambda>r. unit_id r = uid \<and> clinic_id r = clinicId) (units s1)) of
             None \<Rightarrow> (Inl (PersistenceError (''Failed to update unit: '' @ not_single)), s1)
           | Some r \<Rightarrow>
               (let s2 = s1\<lparr>units :=
                            map (\<lambda>x. if unit_id x = uid \<and> clinic_id x = clinicId
                                      then apply_unit_updates updates x else x) (units s1)\<rparr>
                in (formatUnit (join_unit s2 (apply_unit_updates updates r)), s2))))"

subsection \<open>\<^verbatim>\<open>getUnits\<close>\<close>

record units_page =
  pg_units :: "Unit list"
  pg_total :: int
  pg_page :: int
  pg_pageSize :: int

text \<open>\<^verbatim>\<open>.range(from, to)\<close>: the rows at positions \<open>from\<close> to \<open>to\<close>, counted from 0.\<close>

definition range_rows :: "int \<Rightarrow> int \<Rightarrow> 'a list \<Rightarrow> 'a list" where
  "range_rows fromIdx toIdx rows = take (nat (toIdx - fromIdx + 1)) (drop (nat fromIdx) rows)"

text \<open>\<^verbatim>\<open>.order(column, { ascending })\<close> on a numeric column; equal keys keep table order.\<close>

definition order_by :: "('a \<Rightarrow> int) \<Rightarrow> bool \<Rightarrow> 'a list \<Rightarrow> 'a list" where
  "order_by key ascending rows =
     (if ascending then sort_key key rows else sort_key (\<lambda>r. - key r) rows)"

text \<open>\<^verbatim>\<open>field && field.toLowerCase().includes(searchLower)\<close>.\<close>

definition field_matches :: "string \<Rightarrow> string \<Rightarrow> bool" where
  "field_matches field searchLower = (field \<noteq> [] \<and> str_includes (toLowerCase field) searchLower)"

definition opt_field_matches :: "string option \<Rightarrow> string \<Rightarrow> bool" where
  "opt_field_matches field searchLower =
     (case field of None \<Rightarrow> False | Some f \<Rightarrow> field_matches f searchLower)"

text \<open>\<^verbatim>\<open>n && n.toString().includes(searchLower)\<close>.\<close>

definition number_matches :: "int \<Rightarrow> string \<Rightarrow> bool" where
  "number_matches n searchLower = (n \<noteq> 0 \<and> str_includes (show_int n) searchLower)"

fun unit_matches :: "string \<Rightarrow> joined_unit \<Rightarrow> bool" where
  "unit_matches searchLower (unit, drug, lot, usr) =
     (opt_field_matches (optional_notes unit) searchLower \<or>
      (case drug of None \<Rightarrow> False | Some d \<Rightarrow> field_matches (medication_name d) searchLower) \<or>
      (case drug of None \<Rightarrow> False | Some d \<Rightarrow> field_matches (generic_name d) searchLower) \<or>
      (case drug of None \<Rightarrow> False | Some d \<Rightarrow> field_matches (ndc_id d) searchLower) \<or>
      (case drug of None \<Rightarrow> False | Some d \<Rightarrow> field_matches (form d) searchLower) \<or>
      (case lot of None \<Rightarrow> False | Some l \<Rightarrow> field_matches (source l) searchLower) \<or>
      (case lot of None \<Rightarrow> False | Some l \<Rightarrow> opt_field_matches (l_note l) searchLower) \<or>
      field_matches (unit_id unit) searchLower \<or>
      number_matches (available_quantity unit) searchLower \<or>
      number_matches (total_quantity unit) searchLower \<or>
      (case usr of None \<Rightarrow> False | Some x \<Rightarrow> field_matches (username x) searchLower))"

text \<open>The page of the tenant's units that the query of \<^verbatim>\<open>getUnits\<close> fetches.\<close>

definition units_of_clinic :: "string \<Rightarrow> state \<Rightarrow> unit_row list" where
  "units_of_clinic clinicId s = filter (\<lambda>u. clinic_id u = clinicId) (units s)"

definition fetched_page :: "string \<Rightarrow> int \<Rightarrow> int \<Rightarrow> state \<Rightarrow> joined_unit list" where
  "fetched_page clinicId page pageSize s =
     (let fromIdx = (page - 1) * pageSize;
          toIdx = fromIdx + pageSize - 1
      in map (join_unit s) (range_rows fromIdx toIdx (order_by date_created False (units_of_clinic clinicId s))))"

definition getUnits :: "string \<Rightarrow> int \<Rightarrow> int \<Rightarrow> string option \<Rightarrow> state \<Rightarrow>
    (error + units_page) \<times> state" where
  "getUnits clinicId page pageSize search s =
     (case storage_call s of
        (Some e, s1) \<Rightarrow> (Inl (PersistenceError (''Failed to get units: '' @ e)), s1)
      | (None, s1) \<Rightarrow>
          (let fetched = fetched_page clinicId page pageSize s1;
               cnt = int (length (units_of_clinic clinicId s1));
               filteredUnits =
                 (if truthy search \<and> 0 < length fetched
                  then filter (unit_matches (toLowerCase (the search))) fetched
                  else fetched)
           in case format_units filteredUnits of
                Inl e \<Rightarrow> (Inl e, s1)
              | Inr formatted \<Rightarrow>
                  (Inr \<lparr>pg_units = formatted,
                        pg_total = (if truthy search then int (length filteredUnits) else cnt),
                        pg_page = page, pg_pageSize = pageSize\<rparr>, s1)))"

subsection \<open>\<^verbatim>\<open>getUnitsAdvanced\<close>\<close>

datatype expirationWindow =
  EXPIRED | EXPIRING_7_DAYS | EXPIRING_30_DAYS | EXPIRING_60_DAYS | EXPIRING_90_DAYS | ALL_UNITS

datatype sortBy = EXPIRY_DATE | MEDICATION_NAME | QUANTITY | CREATED_DATE | STRENGTH

datatype sortOrder = ASC | DESC

record unit_filters =
  f_expiryDateFrom :: "date option"
  f_expiryDateTo :: "date option"
  f_locationIds :: "string list option"
  f_minStrength :: "rat option"
  f_maxStrength :: "rat option"
  f_strengthUnit :: "string option"
  f_expirationWindow :: "expirationWindow option"
  f_medicationName :: "string option"
  f_genericName :: "string option"
  f_ndcId :: "string option"
  f_sortBy :: "sortBy option"
  f_sortOrder :: "sortOrder option"

text \<open>The filter that the \<^verbatim>\<open>switch (filters.expirationWindow)\<close> adds to the query.\<close>

fun window_filter :: "expirationWindow option \<Rightarrow> date \<Rightarrow> date \<Rightarrow> bool" where
  "window_filter None t d = True"
| "window_filter (Some EXPIRED) t d = (d < t)"
| "window_filter (Some EXPIRING_7_DAYS) t d = (t \<le> d \<and> d \<le> t + 7)"
| "window_filter (Some EXPIRING_30_DAYS) t d = (t \<le> d \<and> d \<le> t + 30)"
| "window_filter (Some EXPIRING_60_DAYS) t d = (t \<le> d \<and> d \<le> t + 60)"
| "window_filter (Some EXPIRING_90_DAYS) t d = (t \<le> d \<and> d \<le> t + 90)"
| "window_filter (Some ALL_UNITS) t d = True"

text \<open>
  The filters \<^verbatim>\<open>.gte('expiry_date', expiryDateFrom)\<close> and \<^verbatim>\<open>.lte('expiry_date', expiryDateTo)\<close>
  that the explicit range adds to the same query.
\<close>

definition range_filter :: "date option \<Rightarrow> date option \<Rightarrow> date \<Rightarrow> bool" where
  "range_filter dfrom dto d =
     ((case dfrom of None \<Rightarrow> True | Some a \<Rightarrow> a \<le> d) \<and>
      (case dto of None \<Rightarrow> True | Some b \<Rightarrow> d \<le> b))"

text \<open>The filters of one query are a conjunction.\<close>

definition advanced_query :: "string \<Rightarrow> unit_filters \<Rightarrow> state \<Rightarrow> unit_row list" where
  "advanced_query clinicId filters s =
     filter (\<lambda>u. clinic_id u = clinicId
                \<and> window_filter (f_expirationWindow filters) (today s) (expiry_date u)
                \<and> range_filter (f_expiryDateFrom filters) (f_expiryDateTo filters) (expiry_date u))
       (units s)"

definition server_sort :: "sortBy \<Rightarrow> bool \<Rightarrow> unit_row list \<Rightarrow> unit_row list" where
  "server_sort sortField ascending rows =
     (case sortField of
        EXPIRY_DATE \<Rightarrow> order_by expiry_date ascending rows
      | CREATED_DATE \<Rightarrow> order_by date_created ascending rows
      | QUANTITY \<Rightarrow> order_by available_quantity ascending rows
      | _ \<Rightarrow> order_by expiry_date ascending rows)"

text \<open>The callback of \<^verbatim>\<open>filteredUnits.filter\<close>: the criteria on the joined lot and drug.\<close>

fun client_filter :: "unit_filters \<Rightarrow> joined_unit \<Rightarrow> bool" where
  "client_filter filters (unit, drug, lot, usr) =
     (\<not> (case f_locationIds filters of
            None \<Rightarrow> False
          | Some ids \<Rightarrow> ids \<noteq> [] \<and> (lot = None \<or> location_id (the lot) \<notin> set ids)) \<and>
      (case drug of
         None \<Rightarrow> True
       | Some d \<Rightarrow>
           \<not> (case f_minStrength filters of None \<Rightarrow> False | Some m \<Rightarrow> strength d < m) \<and>
           \<not> (case f_maxStrength filters of None \<Rightarrow> False | Some m \<Rightarrow> m < strength d) \<and>
           \<not> (truthy (f_strengthUnit filters) \<and> strength_unit d \<noteq> the (f_strengthUnit filters)) \<and>
           \<not> (truthy (f_medicationName filters) \<and>
              \<not> str_includes (toLowerCase (medication_name d))
                   (toLowerCase (the (f_medicationName filters)))) \<and>
           \<not> (truthy (f_genericName filters) \<and>
              \<not> str_includes (toLowerCase (generic_name d))
                   (toLowerCase (the (f_genericName filters)))) \<and>
           \<not> (truthy (f_ndcId filters) \<and> ndc_id d \<noteq> the (f_ndcId filters))))"

text \<open>
  \<^verbatim>\<open>Array.prototype.sort\<close> with a comparison callback, given as its "comes no later than"
  relation: a stable sort.
\<close>

fun insert_by :: "('a \<Rightarrow> 'a \<Rightarrow> bool) \<Rightarrow> 'a \<Rightarrow> 'a list \<Rightarrow> 'a list" where
  "insert_by le x [] = [x]"
| "insert_by le x (y # ys) = (if le y x then y # insert_by le x ys else x # y # ys)"

definition sort_by :: "('a \<Rightarrow> 'a \<Rightarrow> bool) \<Rightarrow> 'a list \<Rightarrow> 'a list" where
  "sort_by le xs = foldl (\<lambda>acc x. insert_by le x acc) [] xs"

definition name_of :: "joined_unit \<Rightarrow> string" where
  "name_of j = (case fst (snd j) of None \<Rightarrow> [] | Some d \<Rightarrow> medication_name d)"

definition strength_of :: "joined_unit \<Rightarrow> rat" where
  "strength_of j = (case fst (snd j) of None \<Rightarrow> 0 | Some d \<Rightarrow> strength d)"

definition client_sort :: "(string \<Rightarrow> string \<Rightarrow> int) \<Rightarrow> sortBy \<Rightarrow> bool \<Rightarrow> joined_unit list \<Rightarrow> joined_unit list" where
  "client_sort localeCompare sortField ascending rows =
     (case sortField of
        MEDICATION_NAME \<Rightarrow>
          sort_by (\<lambda>a b. (if ascending then localeCompare (name_of a) (name_of b)
                          else localeCompare (name_of b) (name_of a)) \<le> 0) rows
      | STRENGTH \<Rightarrow>
          sort_by (\<lambda>a b. (if ascending then strength_of a - strength_of b
                          else strength_of b - strength_of a) \<le> 0) rows
      | _ \<Rightarrow> rows)"

text \<open>
  \<^verbatim>\<open>getUnitsAdvanced\<close>; \<^verbatim>\<open>String.prototype.localeCompare\<close> is a parameter.
\<close>

definition getUnitsAdvanced :: "(string \<Rightarrow> string \<Rightarrow> int) \<Rightarrow> string \<Rightarrow> unit_filters \<Rightarrow> int \<Rightarrow> int \<Rightarrow>
    state \<Rightarrow> (error + units_page) \<times> state" where
  "getUnitsAdvanced localeCompare clinicId filters page pageSize s =
     (case storage_call s of
        (Some e, s1) \<Rightarrow> (Inl (PersistenceError (''Failed to get units: '' @ e)), s1)
      | (None, s1) \<Rightarrow>
          (let sortField = (case f_sortBy filters of None \<Rightarrow> EXPIRY_DATE | Some f \<Rightarrow> f);
               ascending = ((case f_sortOrder filters of None \<Rightarrow> ASC | Some d \<Rightarrow> d) = ASC);
               matching = advanced_query clinicId filters s1;
               fromIdx = (page - 1) * pageSize;
               toIdx = fromIdx + pageSize - 1;
               fetched = map (join_unit s1) (range_rows fromIdx toIdx (server_sort sortField ascending matching));
               filteredUnits =
                 (if 0 < length fetched
                  then client_sort localeCompare sortField ascending (filter (client_filter filters) fetched)
                  else fetched)
           in case format_units filteredUnits of
                Inl e \<Rightarrow> (Inl e, s1)
              | Inr formatted \<Rightarrow>
                  (Inr \<lparr>pg_units = formatted, pg_total = int (length matching),
                        pg_page = page, pg_pageSize = pageSize\<rparr>, s1)))"

section \<open>Conditions of the statements\<close>

text \<open>The outcome planned for the storage call that comes after \<open>n\<close> others.\<close>

definition nth_fault :: "nat \<Rightarrow> string option list \<Rightarrow> string option" where
  "nth_fault n fs = (if n < length fs then fs ! n else None)"

definition fault_at :: "nat \<Rightarrow> state \<Rightarrow> string option" where
  "fault_at n s = nth_fault n (faults s)"

text \<open>A request that passes the two input checks of \<^verbatim>\<open>checkOutMedicationFEFO\<close>.\<close>

definition valid_fefo_request :: "FEFOCheckoutRequest \<Rightarrow> bool" where
  "valid_fefo_request input \<longleftrightarrow>
     (truthy (fr_ndcId input) \<or>
      (truthy (fr_medicationName input) \<and> truthy_num (fr_strength input) \<and>
       truthy (fr_strengthUnit input))) \<and> 0 < fr_quantity input"

text \<open>The unit of that identifier in that clinic, when there is exactly one.\<close>

definition unit_in_clinic :: "string \<Rightarrow> string \<Rightarrow> state \<Rightarrow> unit_row option" where
  "unit_in_clinic uid clinicId s =
     single (filter (\<lambda>r. unit_id r = uid \<and> clinic_id r = clinicId) (units s))"


text \<open>
  What one successful step of the rollback loop does to a unit row: the unit of the ledger
  entry gets the taken quantity added to what it holds now. \<open>add_back_all\<close> is the effect
  of the whole loop.
\<close>

definition add_back :: "string \<Rightarrow> used_unit \<Rightarrow> unit_row \<Rightarrow> unit_row" where
  "add_back c x r =
     (if unit_id r = unitId x \<and> clinic_id r = c
      then r\<lparr>available_quantity := available_quantity r + quantityTaken x\<rparr> else r)"

definition add_back_all :: "string \<Rightarrow> used_unit list \<Rightarrow> unit_row \<Rightarrow> unit_row" where
  "add_back_all c used r = foldl (\<lambda>r x. add_back c x r) r used"

text \<open>Exactly one row of the table has that identifier in that clinic.\<close>

definition has_one :: "string \<Rightarrow> string \<Rightarrow> unit_row list \<Rightarrow> bool" where
  "has_one uid c rows \<longleftrightarrow> length (filter (\<lambda>r. unit_id r = uid \<and> clinic_id r = c) rows) = 1"


text \<open>The invariant of a unit: \<open>0 \<le> availableQuantity \<le> totalQuantity\<close>.\<close>

definition unit_invariant :: "unit_row \<Rightarrow> bool" where
  "unit_invariant r \<longleftrightarrow> 0 \<le> available_quantity r \<and> available_quantity r \<le> total_quantity r"

text \<open>A row before and after an operation: the same unit, which still has the invariant if it had it.\<close>

definition keeps_invariant :: "unit_row \<Rightarrow> unit_row \<Rightarrow> bool" where
  "keeps_invariant r r' \<longleftrightarrow> unit_id r' = unit_id r \<and> (unit_invariant r \<longrightarrow> unit_invariant r')"

text \<open>
  A row and what a FEFO walk can make of it: the row itself, or the row with an available
  quantity between 0 and the one it had. During the walk (\<open>walk_rel\<close>), a row whose unit is
  in the ledger \<open>used\<close> holds at most what it had less the quantity taken from it.
\<close>

definition shrunk :: "unit_row \<Rightarrow> unit_row \<Rightarrow> bool" where
  "shrunk r r' \<longleftrightarrow>
     r' = r \<or> (\<exists>v. 0 \<le> v \<and> v \<le> available_quantity r \<and> r' = r\<lparr>available_quantity := v\<rparr>)"

definition walk_rel :: "string \<Rightarrow> used_unit list \<Rightarrow> unit_row \<Rightarrow> unit_row \<Rightarrow> bool" where
  "walk_rel c used r r' \<longleftrightarrow>
     ((\<forall>x\<in>set used. \<not> (unitId x = unit_id r \<and> clinic_id r = c)) \<and> r' = r) \<or>
     (\<exists>v. r' = r\<lparr>available_quantity := v\<rparr> \<and> 0 \<le> v \<and> v \<le> available_quantity r \<and>
          (\<forall>x\<in>set used. unitId x = unit_id r \<and> clinic_id r = c \<longrightarrow>
             0 \<le> quantityTaken x \<and> v + quantityTaken x \<le> available_quantity r))"

text \<open>The identifier and the two quantities of a unit row.\<close>

definition quantities :: "unit_row \<Rightarrow> string \<times> int \<times> int" where
  "quantities r = (unit_id r, total_quantity r, available_quantity r)"

text \<open>
  The unit that \<^verbatim>\<open>createUnit\<close> inserts in state \<open>s0\<close> for the drug \<open>drugId\<close>, with the
  identifier and the creation time the database gives it and its QR code set.
\<close>

definition created_row :: "CreateUnitRequest \<Rightarrow> string \<Rightarrow> string \<Rightarrow> string \<Rightarrow> state \<Rightarrow> unit_row" where
  "created_row input userId clinicId drugId s0 =
     \<lparr>unit_id = gen_id (next_id s0), total_quantity = cu_totalQuantity input,
      available_quantity = cu_availableQuantity input, lot_id = cu_lotId input,
      expiry_date = cu_expiryDate input, date_created = now s0, user_id = userId,
      drug_id = drugId, qr_code = Some (gen_id (next_id s0)),
      optional_notes = cu_optionalNotes input,
      manufacturer_lot_number = cu_manufacturerLotNumber input, clinic_id = clinicId\<rparr>"

text \<open>
  The check-in that \<^verbatim>\<open>createUnit\<close> records for the unit it inserted in state \<open>s0\<close>: the unit
  took the identifier \<open>next_id s0\<close>, the transaction takes the one after.
\<close>

definition check_in_row :: "CreateUnitRequest \<Rightarrow> string \<Rightarrow> string \<Rightarrow> state \<Rightarrow> transaction_row" where
  "check_in_row input userId clinicId s0 =
     \<lparr>transaction_id = gen_id (Suc (next_id s0)), timestamp = now s0, tx_type = check_in,
      tx_quantity = cu_totalQuantity input, tx_unit_id = gen_id (next_id s0),
      patient_name = None, patient_reference_id = None, tx_user_id = userId,
      tx_notes = Some ''Initial check-in'', tx_clinic_id = clinicId\<rparr>"

section \<open>Example data\<close>

definition ex_drug :: drug_row where
  "ex_drug = \<lparr>d_drug_id = ''d1'', medication_name = ''Lisinopril'', generic_name = ''lisinopril'',
     strength = 10, strength_unit = ''mg'', ndc_id = ''0001'', form = ''tablet''\<rparr>"

definition ex_lot :: lot_row where
  "ex_lot = \<lparr>l_lot_id = ''l1'', source = ''donation'', l_note = None, location_id = ''loc1'',
     l_clinic_id = ''c1'', max_capacity = Some 1000\<rparr>"

definition ex_user :: user_row where
  "ex_user = \<lparr>u_user_id = ''usr'', username = ''pat'', email = ''pat@clinic.org''\<rparr>"

definition ex_unit :: "string \<Rightarrow> int \<Rightarrow> int \<Rightarrow> date \<Rightarrow> unit_row" where
  "ex_unit uid tot avail expiry =
     \<lparr>unit_id = uid, total_quantity = tot, available_quantity = avail, lot_id = ''l1'',
      expiry_date = expiry, date_created = 0, user_id = ''usr'', drug_id = ''d1'',
      qr_code = Some uid, optional_notes = None, manufacturer_lot_number = None,
      clinic_id = ''c1''\<rparr>"

text \<open>A clinic \<open>c1\<close> with the given units and the given outcomes of the coming storage calls.\<close>

definition ex_state :: "unit_row list \<Rightarrow> string option list \<Rightarrow> state" where
  "ex_state us fs = \<lparr>units = us, transactions = [], drugs = [ex_drug], lots = [ex_lot],
     users = [ex_user], next_id = 0, now = 0, today = 20000, faults = fs, console = []\<rparr>"

text \<open>A request for a quantity of the drug with NDC \<open>0001\<close>.\<close>

definition ex_request :: "int \<Rightarrow> FEFOCheckoutRequest" where
  "ex_request q = \<lparr>fr_ndcId = Some ''0001'', fr_medicationName = None, fr_strength = None,
     fr_strengthUnit = None, fr_quantity = q, fr_patientName = None,
     fr_patientReferenceId = None, fr_notes = None\<rparr>"

text \<open>
  Unit \<open>A\<close> expires on day 20089 and unit \<open>B\<close> on day 20240; each holds 30. \<open>B\<close> was filed
  first.
\<close>

definition ex_two_units :: "unit_row list" where
  "ex_two_units = [ex_unit ''B'' 30 30 20240, ex_unit ''A'' 30 30 20089]"

text \<open>Three units of the clinic, and a checkout of 4 recorded against unit \<open>A\<close>.\<close>

definition ex_three_units :: "unit_row list" where
  "ex_three_units = [ex_unit ''A'' 10 6 20089, ex_unit ''B'' 10 10 20240, ex_unit ''C'' 10 10 20300]"

definition ex_tx :: transaction_row where
  "ex_tx = \<lparr>transaction_id = ''t1'', timestamp = 0, tx_type = check_out, tx_quantity = 4,
     tx_unit_id = ''A'', patient_name = None, patient_reference_id = None,
     tx_user_id = ''usr'', tx_notes = None, tx_clinic_id = ''c1''\<rparr>"

text \<open>
  The storage calls of a walk over the two example units in which the insert for the second
  unit fails: the drug and the units are read, unit \<open>A\<close> is written, its transaction
  inserted and read back, unit \<open>B\<close> is written, and the insert of its transaction fails.
\<close>

definition ex_second_insert_fails :: "string option list" where
  "ex_second_insert_fails = [None, None, None, None, None, None, Some ''boom'']"

text \<open>An update of a unit that sets its available quantity.\<close>

definition ex_update :: "int \<Rightarrow> unit_updates" where
  "ex_update a = \<lparr>up_totalQuantity = None, up_availableQuantity = Some a, up_expiryDate = None,
     up_optionalNotes = None\<rparr>"

text \<open>A request to check a quantity out of one unit.\<close>

definition ex_checkout :: "string \<Rightarrow> int \<Rightarrow> CheckOutRequest" where
  "ex_checkout uid q = \<lparr>co_unitId = uid, co_quantity = q, co_patientName = None,
     co_patientReferenceId = None, co_notes = None\<rparr>"

text \<open>A request to file \<open>n\<close> of drug \<open>d1\<close> in lot \<open>l1\<close>, whose capacity is 1000.\<close>

definition ex_create :: "int \<Rightarrow> CreateUnitRequest" where
  "ex_create n = \<lparr>cu_totalQuantity = n, cu_availableQuantity = n, cu_lotId = ''l1'',
     cu_expiryDate = 20400, cu_drugId = Some ''d1'', cu_drugData = None,
     cu_optionalNotes = None, cu_manufacturerLotNumber = None\<rparr>"

text \<open>A drug catalogue that is never reached when the request names its drug.\<close>

definition no_catalogue :: "drugData \<Rightarrow> state \<Rightarrow> (error + string) \<times> state" where
  "no_catalogue dd s = (Inl (PersistenceError ''drug catalogue unavailable''), s)"

text \<open>Filters with an expiration window and an explicit range of expiry dates.\<close>

definition ex_filters :: "expirationWindow option \<Rightarrow> date option \<Rightarrow> date option \<Rightarrow> unit_filters" where
  "ex_filters w a b = \<lparr>f_expiryDateFrom = a, f_expiryDateTo = b, f_locationIds = None,
     f_minStrength = None, f_maxStrength = None, f_strengthUnit = None,
     f_expirationWindow = w, f_medicationName = None, f_genericName = None, f_ndcId = None,
     f_sortBy = None, f_sortOrder = None\<rparr>"

section \<open>The storage calls\<close>

lemma storage_call_eq: "storage_call s = (fault_at 0 s, s\<lparr>faults := tl (faults s)\<rparr>)"
  by (cases "faults s") (auto simp: storage_call_def fault_at_def nth_fault_def)

lemma nth_fault_tl [simp]: "nth_fault n (tl fs) = nth_fault (Suc n) fs"
  by (cases fs) (auto simp: nth_fault_def)

lemma nth_fault_Nil [simp]: "nth_fault n [] = None"
  by (simp add: nth_fault_def)

lemma nth_fault_Cons_0 [simp]: "nth_fault 0 (f # fs) = f"
  by (simp add: nth_fault_def)

lemma storage_call_tables:
  "storage_call s = (f, s1) \<Longrightarrow>
   units s1 = units s \<and> transactions s1 = transactions s \<and> drugs s1 = drugs s \<and>
   lots s1 = lots s \<and> users s1 = users s"
  by (auto simp: storage_call_def split: list.splits)

section \<open>FEFO allocation: conservation and order\<close>

lemma fefo_loop_total:
  "fefo_loop input uid cid rows rem txs used s = (Inr res, s') \<Longrightarrow>
   totalQuantityDispensed res = fr_quantity input"
  by (induction input uid cid rows rem txs used s rule: fefo_loop.induct)
     (auto simp: Let_def split: if_splits prod.splits option.splits sum.splits)

lemma avail_sum_nonneg:
  "\<forall>r\<in>set rows. 0 < available_quantity (fst r) \<Longrightarrow>
   0 \<le> sum_list (map (\<lambda>r. available_quantity (fst r)) rows)"
  by (induction rows) auto

lemma fefo_loop_sum:
  "fefo_loop input uid cid rows rem txs used s = (Inr res, s') \<Longrightarrow>
   \<forall>r\<in>set rows. 0 < available_quantity (fst r) \<Longrightarrow> 0 \<le> rem \<Longrightarrow>
   rem \<le> sum_list (map (available_quantity \<circ> fst) rows) \<Longrightarrow>
   sum_list (map quantityTaken (unitsUsed res)) = sum_list (map quantityTaken used) + rem"
proof (induction input uid cid rows rem txs used s rule: fefo_loop.induct)
  case (1 input userId clinicId remaining txs used s)
  then show ?case by auto
next
  case (2 input userId clinicId unit drug rest remaining txs used s)
  then show ?case
    using avail_sum_nonneg [of rest]
    by (auto simp: Let_def min_def split: if_splits prod.splits option.splits sum.splits)
qed

lemma fefo_loop_sorted:
  "fefo_loop input uid cid rows rem txs used s = (Inr res, s') \<Longrightarrow>
   sorted (map expiryDate used @ map (expiry_date \<circ> fst) rows) \<Longrightarrow>
   sorted (map expiryDate (unitsUsed res))"
proof (induction input uid cid rows rem txs used s rule: fefo_loop.induct)
  case (1 input userId clinicId remaining txs used s)
  then show ?case by auto
next
  case (2 input userId clinicId unit drug rest remaining txs used s)
  then show ?case
    by (auto simp: Let_def sorted_append split: if_splits prod.splits option.splits sum.splits)
qed

lemma fefo_rows_positive: "\<forall>r\<in>set (fefo_rows clinicId ids s). 0 < available_quantity (fst r)"
  by (auto simp: fefo_rows_def)

lemma fefo_rows_sorted: "sorted (map (expiry_date \<circ> fst) (fefo_rows clinicId ids s))"
  by (simp add: fefo_rows_def comp_def)

text \<open>
  What a call that reaches the loop has passed: the quantity is positive, and the rows of
  the units query hold at least the quantity.
\<close>

lemma checkOutMedicationFEFO_Inr:
  assumes "checkOutMedicationFEFO input userId clinicId s = (Inr res, s')"
  shows "\<exists>ids s2.
      fr_quantity input \<le> sum_list (map (available_quantity \<circ> fst) (fefo_rows clinicId ids s2)) \<and>
      fefo_loop input userId clinicId (fefo_rows clinicId ids s2) (fr_quantity input) [] [] s2
        = (Inr res, s')"
proof -
  from assms have "\<exists>ids s2.
      \<not> sum_list (map (available_quantity \<circ> fst) (fefo_rows clinicId ids s2)) < fr_quantity input \<and>
      fefo_loop input userId clinicId (fefo_rows clinicId ids s2) (fr_quantity input) [] [] s2
        = (Inr res, s')"
    unfolding checkOutMedicationFEFO_def fetch_units_def Let_def
    by (simp split: if_splits prod.splits option.splits sum.splits) blast
  then show ?thesis by (auto simp: not_less)
qed

text \<open>
  C1. Every successful call of \<^verbatim>\<open>checkOutMedicationFEFO\<close> was asked for a positive quantity;
  the quantities taken in \<open>unitsUsed\<close> add up to \<open>totalQuantityDispensed\<close>, which is the
  requested quantity, and the entries of \<open>unitsUsed\<close> are in non-decreasing order of expiry
  date.
\<close>

theorem fefo_conservation_and_order:
  assumes "checkOutMedicationFEFO input userId clinicId s = (Inr res, s')"
  shows "0 < fr_quantity input \<and>
         sum_list (map quantityTaken (unitsUsed res)) = totalQuantityDispensed res \<and>
         totalQuantityDispensed res = fr_quantity input \<and>
         sorted (map expiryDate (unitsUsed res))"
proof -
  from assms have q: "0 < fr_quantity input"
    by (auto simp: checkOutMedicationFEFO_def split: if_splits)
  from checkOutMedicationFEFO_Inr [OF assms] obtain ids s2 where
    enough: "fr_quantity input \<le> sum_list (map (available_quantity \<circ> fst) (fefo_rows clinicId ids s2))" and
    loop: "fefo_loop input userId clinicId (fefo_rows clinicId ids s2) (fr_quantity input) [] [] s2
             = (Inr res, s')"
    by blast
  have "sum_list (map quantityTaken (unitsUsed res)) = fr_quantity input"
    using fefo_loop_sum [OF loop fefo_rows_positive _ enough] q by simp
  moreover have "totalQuantityDispensed res = fr_quantity input"
    using fefo_loop_total [OF loop] .
  moreover have "sorted (map expiryDate (unitsUsed res))"
    using fefo_loop_sorted [OF loop] fefo_rows_sorted [of clinicId ids s2] by simp
  ultimately show ?thesis using q by simp
qed

text \<open>
  The request for 40 on the two example units succeeds, takes 30 from \<open>A\<close> and then 10
  from \<open>B\<close>, and leaves \<open>A\<close> with 0 and \<open>B\<close> with 20.
\<close>

theorem fefo_conservation_and_order_witness:
  "\<not> isl (fst (checkOutMedicationFEFO (ex_request 40) ''usr'' ''c1'' (ex_state ex_two_units []))) \<and>
   map (\<lambda>x. (unitId x, quantityTaken x))
     (unitsUsed (projr (fst (checkOutMedicationFEFO (ex_request 40) ''usr'' ''c1''
        (ex_state ex_two_units []))))) = [(''A'', 30), (''B'', 10)] \<and>
   map (\<lambda>r. (unit_id r, available_quantity r))
     (units (snd (checkOutMedicationFEFO (ex_request 40) ''usr'' ''c1''
        (ex_state ex_two_units [])))) = [(''B'', 20), (''A'', 0)] \<and>
   sum_list (map quantityTaken
     (unitsUsed (projr (fst (checkOutMedicationFEFO (ex_request 40) ''usr'' ''c1''
        (ex_state ex_two_units [])))))) = 40 \<and>
   sorted (map expiryDate
     (unitsUsed (projr (fst (checkOutMedicationFEFO (ex_request 40) ''usr'' ''c1''
        (ex_state ex_two_units []))))))"
proof -
  let ?r = "checkOutMedicationFEFO (ex_request 40) ''usr'' ''c1'' (ex_state ex_two_units [])"
  have ok: "\<not> isl (fst ?r)"
    by code_simp
  then have run: "?r = (Inr (projr (fst ?r)), snd ?r)"
    by (cases ?r) (auto simp: isl_def)
  have used: "map (\<lambda>x. (unitId x, quantityTaken x)) (unitsUsed (projr (fst ?r)))
      = [(''A'', 30), (''B'', 10)]"
    by code_simp
  have left: "map (\<lambda>r. (unit_id r, available_quantity r)) (units (snd ?r))
      = [(''B'', 20), (''A'', 0)]"
    by code_simp
  have "fr_quantity (ex_request 40) = 40"
    by (simp add: ex_request_def)
  with fefo_conservation_and_order [OF run] ok used left show ?thesis
    by simp
qed

section \<open>FEFO allocation: the stock check\<close>

lemma resolve_drugs_tables:
  "resolve_drugs input s = (r, s1) \<Longrightarrow>
   units s1 = units s \<and> transactions s1 = transactions s"
  unfolding resolve_drugs_def Let_def
  by (auto split: prod.splits if_splits option.splits dest!: storage_call_tables)

lemma fetch_units_tables:
  "fetch_units clinicId ids s = (r, s1) \<Longrightarrow>
   units s1 = units s \<and> transactions s1 = transactions s"
  unfolding fetch_units_def
  by (auto split: prod.splits option.splits dest!: storage_call_tables)

text \<open>
  C2, as amended. A valid request whose drug is found and whose units query returns at
  least one unit, with less stock in these units than the quantity asked for, fails with
  \<open>InsufficientQuantity\<close>; the message names the stock and the quantity, and neither the
  units nor the transactions have changed.
\<close>

theorem fefo_insufficient_quantity:
  assumes "valid_fefo_request input"
    and "resolve_drugs input s = (Inr ids, s1)"
    and "fetch_units clinicId ids s1 = (Inr rows, s2)"
    and "rows \<noteq> []"
    and "sum_list (map (available_quantity \<circ> fst) rows) < fr_quantity input"
  shows "checkOutMedicationFEFO input userId clinicId s =
           (Inl (InsufficientQuantity (sum_list (map (available_quantity \<circ> fst) rows))
                   (fr_quantity input)), s2) \<and>
         message (InsufficientQuantity (sum_list (map (available_quantity \<circ> fst) rows))
                   (fr_quantity input)) =
           ''Insufficient quantity. Available: '' @
           show_int (sum_list (map (available_quantity \<circ> fst) rows)) @
           '', Requested: '' @ show_int (fr_quantity input) \<and>
         units s2 = units s \<and> transactions s2 = transactions s"
proof -
  have "checkOutMedicationFEFO input userId clinicId s =
           (Inl (InsufficientQuantity (sum_list (map (available_quantity \<circ> fst) rows))
                   (fr_quantity input)), s2)"
    using assms unfolding checkOutMedicationFEFO_def valid_fefo_request_def Let_def
    by auto
  moreover have "units s2 = units s \<and> transactions s2 = transactions s"
    using resolve_drugs_tables [OF assms(2)] fetch_units_tables [OF assms(3)] by simp
  ultimately show ?thesis by simp
qed

text \<open>One unit holding 50, and 100 asked for: the call fails and the unit keeps its 50.\<close>

theorem fefo_insufficient_quantity_witness:
  "valid_fefo_request (ex_request 100) \<and>
   checkOutMedicationFEFO (ex_request 100) ''usr'' ''c1'' (ex_state [ex_unit ''A'' 50 50 20089] [])
     = (Inl (InsufficientQuantity 50 100), ex_state [ex_unit ''A'' 50 50 20089] []) \<and>
   message (InsufficientQuantity 50 100) = ''Insufficient quantity. Available: 50, Requested: 100'' \<and>
   map available_quantity (units (ex_state [ex_unit ''A'' 50 50 20089] [])) = [50]"
proof -
  let ?s = "ex_state [ex_unit ''A'' 50 50 20089] []"
  let ?rows = "fefo_rows ''c1'' [''d1''] ?s"
  have v: "valid_fefo_request (ex_request 100)"
    by code_simp
  have r: "resolve_drugs (ex_request 100) ?s = (Inr [''d1''], ?s)"
    by code_simp
  have f: "fetch_units ''c1'' [''d1''] ?s = (Inr ?rows, ?s)"
    by code_simp
  have n: "?rows \<noteq> []"
    by code_simp
  have total: "sum_list (map (available_quantity \<circ> fst) ?rows) = 50"
    by code_simp
  have q: "fr_quantity (ex_request 100) = 100"
    by (simp add: ex_request_def)
  have less: "sum_list (map (available_quantity \<circ> fst) ?rows) < fr_quantity (ex_request 100)"
    unfolding total q by simp
  have m: "message (InsufficientQuantity 50 100) = ''Insufficient quantity. Available: 50, Requested: 100''"
    by code_simp
  have u: "map available_quantity (units ?s) = [50]"
    by code_simp
  from fefo_insufficient_quantity [OF v r f n less, of "''usr''"] v m u show ?thesis
    unfolding total q by simp
qed

text \<open>
  The claim as stated fails when no unit of the drug has stock left: the stock is 0, less
  than the 100 asked for, and the call fails with another error, whose message names no
  figure.
\<close>

theorem fefo_no_stock_counterexample:
  "sum_list (map (available_quantity \<circ> fst)
      (fefo_rows ''c1'' [''d1''] (ex_state [ex_unit ''A'' 50 0 20089] [])))
     < fr_quantity (ex_request 100) \<and>
   fst (checkOutMedicationFEFO (ex_request 100) ''usr'' ''c1'' (ex_state [ex_unit ''A'' 50 0 20089] []))
     = Inl (NotFound ''No units available for this medication'') \<and>
   message (NotFound ''No units available for this medication'')
     = ''No units available for this medication''"
  by code_simp

section \<open>Correcting a transaction\<close>

text \<open>
  C9. \<^verbatim>\<open>updateTransaction\<close> leaves the units table as it was, whatever the new quantity or
  notes and whether or not the call succeeds: no unit's available or total quantity
  changes.
\<close>

theorem updateTransaction_leaves_units:
  "units (snd (updateTransaction transactionId updates clinicId s)) = units s"
  unfolding updateTransaction_def storage_call_eq Let_def
  by (simp split: option.splits)

text \<open>
  The recorded checkout of 4 is corrected to 40: the ledger changes, unit \<open>A\<close> keeps 6 of
  its 10.
\<close>

lemma updateTransaction_example:
  "map tx_quantity (transactions (snd (updateTransaction ''t1'' \<lparr>tu_quantity = Some 40, tu_notes = None\<rparr>
      ''c1'' ((ex_state ex_three_units [])\<lparr>transactions := [ex_tx]\<rparr>)))) = [40] \<and>
   map (\<lambda>r. (unit_id r, total_quantity r, available_quantity r))
     (units (snd (updateTransaction ''t1'' \<lparr>tu_quantity = Some 40, tu_notes = None\<rparr>
      ''c1'' ((ex_state ex_three_units [])\<lparr>transactions := [ex_tx]\<rparr>))))
     = [(''A'', 10, 6), (''B'', 10, 10), (''C'', 10, 10)]"
  by code_simp

section \<open>Listing units: the total of a page\<close>

lemma fetched_page_cong:
  "units s1 = units s \<Longrightarrow> drugs s1 = drugs s \<Longrightarrow> lots s1 = lots s \<Longrightarrow> users s1 = users s \<Longrightarrow>
   fetched_page c p ps s1 = fetched_page c p ps s"
  by (simp add: fetched_page_def units_of_clinic_def join_unit_def join_drug_def join_lot_def
      join_user_def Let_def cong: map_cong)

lemma length_fetched_page: "0 \<le> ps \<Longrightarrow> int (length (fetched_page c p ps s)) \<le> ps"
  by (simp add: fetched_page_def range_rows_def Let_def)

text \<open>
  C10. When \<^verbatim>\<open>getUnits\<close> returns with a non-empty search text, \<open>total\<close> is the number of
  units of the fetched page that match the text, hence at most the page size; without a
  search text it is the number of units of the clinic.
\<close>

theorem getUnits_total:
  assumes "getUnits clinicId page pageSize search s = (Inr pg, s')"
  shows "(truthy search \<longrightarrow>
            pg_total pg = int (length (filter (unit_matches (toLowerCase (the search)))
                                        (fetched_page clinicId page pageSize s))) \<and>
            (0 \<le> pageSize \<longrightarrow> pg_total pg \<le> pageSize)) \<and>
         (\<not> truthy search \<longrightarrow>
            pg_total pg = int (length (filter (\<lambda>u. clinic_id u = clinicId) (units s))))"
proof -
  let ?s1 = "s\<lparr>faults := tl (faults s)\<rparr>"
  have pg: "fetched_page clinicId page pageSize ?s1 = fetched_page clinicId page pageSize s"
    by (rule fetched_page_cong) simp_all
  have cnt: "units_of_clinic clinicId ?s1 = filter (\<lambda>u. clinic_id u = clinicId) (units s)"
    by (simp add: units_of_clinic_def)
  have len: "int (length (filter P (fetched_page clinicId page pageSize s))) \<le> pageSize"
    if "0 \<le> pageSize" for P
    using length_fetched_page [OF that, of clinicId page s]
      length_filter_le [of P "fetched_page clinicId page pageSize s"] by linarith
  from assms show ?thesis
    by (auto simp: getUnits_def storage_call_eq Let_def pg cnt len
             split: option.splits sum.splits if_splits)
qed

text \<open>
  Three units of the clinic match \<open>LISIN\<close>; the first page of size 2 reports a total of 2
  with the search text and of 3 without.
\<close>

theorem getUnits_total_witness:
  "\<not> isl (fst (getUnits ''c1'' 1 2 (Some ''LISIN'') (ex_state ex_three_units []))) \<and>
   pg_total (projr (fst (getUnits ''c1'' 1 2 (Some ''LISIN'') (ex_state ex_three_units [])))) = 2 \<and>
   length (filter (unit_matches ''lisin'')
     (map (join_unit (ex_state ex_three_units [])) (units (ex_state ex_three_units [])))) = 3 \<and>
   \<not> isl (fst (getUnits ''c1'' 1 2 None (ex_state ex_three_units []))) \<and>
   pg_total (projr (fst (getUnits ''c1'' 1 2 None (ex_state ex_three_units [])))) = 3"
proof -
  let ?s = "ex_state ex_three_units []"
  let ?a = "getUnits ''c1'' 1 2 (Some ''LISIN'') ?s"
  let ?b = "getUnits ''c1'' 1 2 None ?s"
  have oka: "\<not> isl (fst ?a)" and okb: "\<not> isl (fst ?b)"
    by code_simp+
  have runa: "?a = (Inr (projr (fst ?a)), snd ?a)"
    using oka by (cases ?a) (auto simp: isl_def)
  have runb: "?b = (Inr (projr (fst ?b)), snd ?b)"
    using okb by (cases ?b) (auto simp: isl_def)
  have onpage: "int (length (filter (unit_matches (toLowerCase (the (Some ''LISIN''))))
      (fetched_page ''c1'' 1 2 ?s))) = 2"
    by code_simp
  have clinic: "int (length (filter (\<lambda>u. clinic_id u = ''c1'') (units ?s))) = 3"
    by code_simp
  have tenant: "length (filter (unit_matches ''lisin'') (map (join_unit ?s) (units ?s))) = 3"
    by code_simp
  have "pg_total (projr (fst ?a)) = 2 \<and> pg_total (projr (fst ?a)) \<le> 2"
    using getUnits_total [OF runa] onpage by simp
  moreover have "pg_total (projr (fst ?b)) = 3"
    using getUnits_total [OF runb] clinic by simp
  ultimately show ?thesis
    using oka okb tenant by simp
qed

section \<open>Advanced listing: expiration window and explicit range\<close>

text \<open>
  With both given, the rows of the query are those of the explicit range that also lie in
  the expiration window.
\<close>

lemma advanced_query_both:
  "advanced_query clinicId filters s =
   filter (\<lambda>u. window_filter (f_expirationWindow filters) (today s) (expiry_date u))
     (advanced_query clinicId (filters\<lparr>f_expirationWindow := None\<rparr>) s)"
  by (auto simp: advanced_query_def intro: filter_cong)

text \<open>
  C8 fails on the code. On day 20000, with the window \<open>EXPIRING_30_DAYS\<close> and the explicit
  range from day 20080 to day 20100, \<^verbatim>\<open>getUnitsAdvanced\<close> returns no unit; with the range
  alone it returns unit \<open>A\<close>, which expires on day 20089.
\<close>

theorem getUnitsAdvanced_window_and_range:
  "map (unit_id \<circ> u_row) (pg_units (projr (fst (getUnitsAdvanced (\<lambda>a b. 0) ''c1''
      (ex_filters (Some EXPIRING_30_DAYS) (Some 20080) (Some 20100)) 1 50
      (ex_state ex_three_units []))))) = [] \<and>
   map (unit_id \<circ> u_row) (pg_units (projr (fst (getUnitsAdvanced (\<lambda>a b. 0) ''c1''
      (ex_filters None (Some 20080) (Some 20100)) 1 50
      (ex_state ex_three_units []))))) = [''A'']"
  by code_simp

section \<open>Creating a unit\<close>

text \<open>
  C5. A call of \<^verbatim>\<open>createUnit\<close> that has its drug and finds its lot, on a lot with a maximum
  capacity that the lot's current capacity plus the new total quantity exceeds, fails with
  \<open>CapacityExceeded\<close>; the message states the current, the attempted and the available
  figures, and the state is the one the drug resolution left: no unit is inserted and no
  transaction recorded. When the request names its drug, that is the state before the call.
\<close>

theorem createUnit_capacity_exceeded:
  assumes "resolve_drug_id getOrCreateDrug input s = (Inr drugId, s0)"
    and "truthy drugId"
    and "getLotById (cu_lotId input) clinicId s0 = Some lot"
    and "max_capacity lot = Some cap"
    and "cap < getLotCurrentCapacity (cu_lotId input) s0 + cu_totalQuantity input"
  shows "createUnit getOrCreateDrug input userId clinicId s =
           (Inl (CapacityExceeded (getLotCurrentCapacity (cu_lotId input) s0) cap
                   (cu_totalQuantity input)), s0) \<and>
         message (CapacityExceeded (getLotCurrentCapacity (cu_lotId input) s0) cap
                   (cu_totalQuantity input)) =
           ''Cannot add unit: Would exceed lot capacity. Current: '' @
           show_int (getLotCurrentCapacity (cu_lotId input) s0) @ ''/'' @ show_int cap @
           '', Attempting to add: '' @ show_int (cu_totalQuantity input) @
           '', Available: '' @ show_int (cap - getLotCurrentCapacity (cu_lotId input) s0) \<and>
         (cu_drugData input = None \<or> truthy (cu_drugId input) \<longrightarrow> s0 = s)"
  using assms by (auto simp: createUnit_def resolve_drug_id_def split: if_splits)

text \<open>
  A lot of capacity 1000 holding a unit of 900: filing 200 more is refused and the state is
  unchanged.
\<close>

theorem createUnit_capacity_exceeded_witness:
  "createUnit no_catalogue (ex_create 200) ''usr'' ''c1'' (ex_state [ex_unit ''A'' 900 900 20089] [])
     = (Inl (CapacityExceeded 900 1000 200), ex_state [ex_unit ''A'' 900 900 20089] []) \<and>
   message (CapacityExceeded 900 1000 200) =
     ''Cannot add unit: Would exceed lot capacity. Current: 900/1000, Attempting to add: 200, Available: 100''"
proof -
  let ?s = "ex_state [ex_unit ''A'' 900 900 20089] []"
  have r: "resolve_drug_id no_catalogue (ex_create 200) ?s = (Inr (Some ''d1''), ?s)"
    by code_simp
  have t: "truthy (Some ''d1'')"
    by simp
  have l: "getLotById (cu_lotId (ex_create 200)) ''c1'' ?s = Some ex_lot"
    by code_simp
  have m: "max_capacity ex_lot = Some 1000"
    by (simp add: ex_lot_def)
  have cur: "getLotCurrentCapacity (cu_lotId (ex_create 200)) ?s = 900"
    by code_simp
  have q: "cu_totalQuantity (ex_create 200) = 200"
    by (simp add: ex_create_def)
  have c: "1000 < getLotCurrentCapacity (cu_lotId (ex_create 200)) ?s + cu_totalQuantity (ex_create 200)"
    unfolding cur q by simp
  have msg: "message (CapacityExceeded 900 1000 200) =
     ''Cannot add unit: Would exceed lot capacity. Current: 900/1000, Attempting to add: 200, Available: 100''"
    by code_simp
  from createUnit_capacity_exceeded [OF r t l m c, of "''usr''"] msg show ?thesis
    unfolding cur q by simp
qed

lemma find_weaken: "find P xs = Some x \<Longrightarrow> (\<And>y. P y \<Longrightarrow> Q y) \<Longrightarrow> find Q xs \<noteq> None"
  by (auto simp: find_Some_iff find_None_iff in_set_conv_nth)

lemma single_SomeD: "single xs = Some x \<Longrightarrow> xs = [x]"
  by (cases xs rule: single.cases) auto


lemma set_qr_code_units:
  "units (set_qr_code uid s) =
     (if fault_at 0 s = None
      then map (\<lambda>r. if unit_id r = uid then r\<lparr>qr_code := Some uid\<rparr> else r) (units s)
      else units s)"
  by (auto simp: set_qr_code_def update_qr_code_def storage_call_eq console_error_def)

lemma set_qr_code_frame:
  "transactions (set_qr_code uid s) = transactions s \<and> drugs (set_qr_code uid s) = drugs s \<and>
   lots (set_qr_code uid s) = lots s \<and> users (set_qr_code uid s) = users s \<and>
   next_id (set_qr_code uid s) = next_id s \<and> now (set_qr_code uid s) = now s \<and>
   faults (set_qr_code uid s) = tl (faults s)"
  by (auto simp: set_qr_code_def update_qr_code_def storage_call_eq console_error_def
           split: option.splits)

lemma record_check_in_frame:
  "units (record_check_in input userId clinicId uid s) = units s \<and>
   drugs (record_check_in input userId clinicId uid s) = drugs s \<and>
   lots (record_check_in input userId clinicId uid s) = lots s \<and>
   users (record_check_in input userId clinicId uid s) = users s"
  by (auto simp: record_check_in_def insert_transaction_def storage_call_eq console_error_def
           Let_def split: option.splits)

lemma record_check_in_transactions:
  "transactions (record_check_in input userId clinicId uid s) =
     (case fault_at 0 s of
        None \<Rightarrow> transactions s @
          [\<lparr>transaction_id = gen_id (next_id s), timestamp = now s, tx_type = check_in,
            tx_quantity = cu_totalQuantity input, tx_unit_id = uid,
            patient_name = None, patient_reference_id = None, tx_user_id = userId,
            tx_notes = Some ''Initial check-in'', tx_clinic_id = clinicId\<rparr>]
      | Some e \<Rightarrow> transactions s)"
  by (auto simp: record_check_in_def insert_transaction_def storage_call_eq console_error_def
           Let_def split: option.splits)

lemma record_check_in_console:
  "fault_at 0 s = Some e \<Longrightarrow>
   ''Error creating transaction: '' @ e \<in> set (console (record_check_in input userId clinicId uid s))"
  by (auto simp: record_check_in_def insert_transaction_def storage_call_eq console_error_def)

lemma return_created_frame:
  "units (snd (return_created unit s)) = units s \<and>
   transactions (snd (return_created unit s)) = transactions s \<and>
   set (console s) \<subseteq> set (console (snd (return_created unit s)))"
  by (auto simp: return_created_def fetch_unit_def storage_call_eq console_error_def
           split: option.splits)

lemma return_created_Inr:
  assumes "\<And>r. single (filter (\<lambda>r. unit_id r = unit_id unit) (units s)) = Some r \<Longrightarrow>
             join_drug s r \<noteq> None \<and> join_lot s r \<noteq> None \<and> join_user s (user_id r) \<noteq> None"
  shows "\<not> isl (fst (return_created unit s))"
proof (cases "fault_at 0 s")
  case (Some e)
  then show ?thesis
    by (simp add: return_created_def fetch_unit_def storage_call_eq)
next
  case None
  show ?thesis
  proof (cases "single (filter (\<lambda>r. unit_id r = unit_id unit) (units s))")
    case n: None
    with None show ?thesis
      by (simp add: return_created_def fetch_unit_def storage_call_eq)
  next
    case (Some r)
    from assms [OF Some] obtain d l x where
      "join_drug s r = Some d" "join_lot s r = Some l" "join_user s (user_id r) = Some x"
      by auto
    with None Some show ?thesis
      by (simp add: return_created_def fetch_unit_def storage_call_eq join_unit_def
          join_drug_def join_lot_def join_user_def)
  qed
qed


lemma return_created_row:
  assumes "\<And>r. single (filter (\<lambda>r. unit_id r = unit_id unit) (units s)) = Some r \<Longrightarrow>
             join_drug s r \<noteq> None \<and> join_lot s r \<noteq> None \<and> join_user s (user_id r) \<noteq> None \<and>
             P r"
    and "P unit"
  shows "\<exists>U. fst (return_created unit s) = Inr U \<and> P (u_row U)"
proof (cases "fault_at 0 s")
  case (Some e)
  then show ?thesis
    using assms(2) by (simp add: return_created_def fetch_unit_def storage_call_eq)
next
  case None
  show ?thesis
  proof (cases "single (filter (\<lambda>r. unit_id r = unit_id unit) (units s))")
    case n: None
    with None show ?thesis
      using assms(2) by (simp add: return_created_def fetch_unit_def storage_call_eq)
  next
    case (Some r)
    from assms(1) [OF Some] obtain d l x where
      "join_drug s r = Some d" "join_lot s r = Some l" "join_user s (user_id r) = Some x"
      and "P r"
      by auto
    with None Some show ?thesis
      by (simp add: return_created_def fetch_unit_def storage_call_eq join_unit_def
          join_drug_def join_lot_def join_user_def)
  qed
qed

lemma single_filter_snoc: "single (filter P (xs @ [x])) = Some r \<Longrightarrow> P x \<Longrightarrow> r = x"
proof -
  assume a: "single (filter P (xs @ [x])) = Some r" and p: "P x"
  from a have "filter P (xs @ [x]) = [r]" by (rule single_SomeD)
  with p have "filter P xs @ [x] = [r]" by simp
  then show "r = x" by (cases "filter P xs") auto
qed

text \<open>
  C6. In a call of \<^verbatim>\<open>createUnit\<close> that passes its checks and whose unit insert succeeds (the
  drug and the user of the unit being on file, so that the returned unit can be built), one
  unit is added and the call returns that unit: the row it returns is the inserted row with
  its QR code set when the write of the QR code (the second storage call) succeeds, and
  the inserted row up to the QR code in any case. The third storage call records one
  \<open>check_in\<close> transaction for the total quantity; when that call fails, no transaction is
  recorded, the failure is written to the console, and the unit stays.
\<close>

theorem createUnit_check_in_best_effort:
  assumes "resolve_drug_id getOrCreateDrug input s = (Inr drugId, s0)"
    and "truthy drugId"
    and "getLotById (cu_lotId input) clinicId s0 = Some lot"
    and "\<forall>cap. max_capacity lot = Some cap \<longrightarrow>
           getLotCurrentCapacity (cu_lotId input) s0 + cu_totalQuantity input \<le> cap"
    and "fault_at 0 s0 = None"
    and "find (\<lambda>d. d_drug_id d = the drugId) (drugs s0) \<noteq> None"
    and "join_user s0 userId \<noteq> None"
  shows "\<not> isl (fst (createUnit getOrCreateDrug input userId clinicId s)) \<and>
         (u_row (projr (fst (createUnit getOrCreateDrug input userId clinicId s))))
             \<lparr>qr_code := Some (gen_id (next_id s0))\<rparr> =
           created_row input userId clinicId (the drugId) s0 \<and>
         (fault_at 1 s0 = None \<longrightarrow>
            u_row (projr (fst (createUnit getOrCreateDrug input userId clinicId s))) =
              created_row input userId clinicId (the drugId) s0) \<and>
         map quantities (units (snd (createUnit getOrCreateDrug input userId clinicId s))) =
           map quantities (units s0) @
           [(gen_id (next_id s0), cu_totalQuantity input, cu_availableQuantity input)] \<and>
         transactions (snd (createUnit getOrCreateDrug input userId clinicId s)) =
           (case fault_at 2 s0 of
              None \<Rightarrow> transactions s0 @ [check_in_row input userId clinicId s0]
            | Some e \<Rightarrow> transactions s0) \<and>
         (\<forall>e. fault_at 2 s0 = Some e \<longrightarrow>
            ''Error creating transaction: '' @ e
              \<in> set (console (snd (createUnit getOrCreateDrug input userId clinicId s))))"
proof -
  define row where "row =
    \<lparr>unit_id = gen_id (next_id s0), total_quantity = cu_totalQuantity input,
     available_quantity = cu_availableQuantity input, lot_id = cu_lotId input,
     expiry_date = cu_expiryDate input, date_created = now s0, user_id = userId,
     drug_id = the drugId, qr_code = None, optional_notes = cu_optionalNotes input,
     manufacturer_lot_number = cu_manufacturerLotNumber input, clinic_id = clinicId\<rparr>"
  define s1 where "s1 = s0\<lparr>faults := tl (faults s0), units := units s0 @ [row],
    next_id := Suc (next_id s0)\<rparr>"
  define s2 where "s2 = set_qr_code (unit_id row) s1"
  define s3 where "s3 = record_check_in input userId clinicId (unit_id row) s2"
  define qr :: "unit_row \<Rightarrow> unit_row" where "qr = (\<lambda>r. if unit_id r = unit_id row then r\<lparr>qr_code := Some (unit_id row)\<rparr> else r)"
  let ?r = "createUnit getOrCreateDrug input userId clinicId s"
  have cap: "\<not> (case max_capacity lot of None \<Rightarrow> False
              | Some cap \<Rightarrow> cap < getLotCurrentCapacity (cu_lotId input) s0 + cu_totalQuantity input)"
    using assms(4) by (auto split: option.splits)
  have run: "?r = return_created (row\<lparr>qr_code := Some (unit_id row)\<rparr>) s3"
    using assms(1,2,3,5) cap
    by (simp add: createUnit_def insert_unit_def storage_call_eq Let_def row_def s1_def s2_def s3_def)
  have id: "unit_id row = gen_id (next_id s0)"
    by (simp add: row_def)
  have u1: "units s1 = units s0 @ [row]" and t1: "transactions s1 = transactions s0"
    and f1: "faults s1 = tl (faults s0)" and n1: "next_id s1 = Suc (next_id s0)"
    and now1: "now s1 = now s0" and d1: "drugs s1 = drugs s0" and l1: "lots s1 = lots s0"
    and us1: "users s1 = users s0"
    by (simp_all add: s1_def)
  have u2: "units s2 = units s1 \<or> units s2 = map qr (units s1)"
    unfolding s2_def qr_def by (simp add: set_qr_code_units)
  have u2': "units s2 = map qr (units s1)" if "fault_at 1 s0 = None"
    using that unfolding s2_def qr_def
    by (simp add: set_qr_code_def update_qr_code_def storage_call_eq fault_at_def f1)
  have fr2: "transactions s2 = transactions s0" "drugs s2 = drugs s0" "lots s2 = lots s0"
    "users s2 = users s0" "next_id s2 = Suc (next_id s0)" "now s2 = now s0"
    "faults s2 = tl (tl (faults s0))"
    using set_qr_code_frame [of "unit_id row" s1] by (simp_all add: s2_def t1 d1 l1 us1 n1 now1 f1)
  have q: "quantities (qr r) = quantities r" for r
    by (simp add: qr_def quantities_def)
  have qu2: "map quantities (units s2) = map quantities (units s0) @ [quantities row]"
    using u2 by (auto simp: u1 q comp_def)
  have fr3: "units s3 = units s2" "drugs s3 = drugs s0" "lots s3 = lots s0" "users s3 = users s0"
    using record_check_in_frame [of input userId clinicId "unit_id row" s2]
    by (simp_all add: s3_def fr2)
  have fa2: "fault_at 0 s2 = fault_at 2 s0"
    by (simp add: fault_at_def fr2 numeral_2_eq_2)
  have t3: "transactions s3 =
     (case fault_at 2 s0 of
        None \<Rightarrow> transactions s0 @ [check_in_row input userId clinicId s0]
      | Some e \<Rightarrow> transactions s0)"
    unfolding s3_def record_check_in_transactions fa2
    by (simp add: fr2 check_in_row_def id split: option.splits)
  have c3: "''Error creating transaction: '' @ e \<in> set (console s3)" if "fault_at 2 s0 = Some e" for e
    unfolding s3_def using that fa2 by (intro record_check_in_console) simp
  have lot': "find (\<lambda>l. l_lot_id l = cu_lotId input) (lots s0) \<noteq> None"
    using assms(3) unfolding getLotById_def by (rule find_weaken) simp
  have joins: "join_drug s3 r \<noteq> None \<and> join_lot s3 r \<noteq> None \<and> join_user s3 (user_id r) \<noteq> None \<and>
      (r\<lparr>qr_code := Some (unit_id row)\<rparr> = row\<lparr>qr_code := Some (unit_id row)\<rparr> \<and>
       (fault_at 1 s0 = None \<longrightarrow> r = row\<lparr>qr_code := Some (unit_id row)\<rparr>))"
    if "single (filter (\<lambda>r. unit_id r = unit_id (row\<lparr>qr_code := Some (unit_id row)\<rparr>)) (units s3)) = Some r"
    for r
  proof -
    from that have s: "single (filter (\<lambda>r. unit_id r = unit_id row) (units s2)) = Some r"
      by (simp add: fr3)
    have "r = row \<or> r = qr row"
      using u2
    proof
      assume "units s2 = units s1"
      with s have "single (filter (\<lambda>r. unit_id r = unit_id row) (units s0 @ [row])) = Some r"
        by (simp add: u1)
      then have "r = row" by (rule single_filter_snoc) simp
      then show ?thesis ..
    next
      assume "units s2 = map qr (units s1)"
      with s have "single (filter (\<lambda>r. unit_id r = unit_id row) (map qr (units s0) @ [qr row])) = Some r"
        by (simp add: u1)
      then have "r = qr row" by (rule single_filter_snoc) (simp add: qr_def)
      then show ?thesis ..
    qed
    then have "drug_id r = the drugId \<and> lot_id r = cu_lotId input \<and> user_id r = userId"
      and same: "r\<lparr>qr_code := Some (unit_id row)\<rparr> = row\<lparr>qr_code := Some (unit_id row)\<rparr>"
      by (auto simp: qr_def row_def)
    moreover have "r = row\<lparr>qr_code := Some (unit_id row)\<rparr>" if "fault_at 1 s0 = None"
    proof -
      from s u2' [OF that]
      have "single (filter (\<lambda>r. unit_id r = unit_id row) (map qr (units s0) @ [qr row])) = Some r"
        by (simp add: u1)
      then have "r = qr row" by (rule single_filter_snoc) (simp add: qr_def)
      then show ?thesis by (simp add: qr_def)
    qed
    ultimately show ?thesis
      using assms(6,7) lot' by (simp add: join_drug_def join_lot_def join_user_def fr3)
  qed
  have "\<exists>U. fst (return_created (row\<lparr>qr_code := Some (unit_id row)\<rparr>) s3) = Inr U \<and>
      ((u_row U)\<lparr>qr_code := Some (unit_id row)\<rparr> = row\<lparr>qr_code := Some (unit_id row)\<rparr> \<and>
       (fault_at 1 s0 = None \<longrightarrow> u_row U = row\<lparr>qr_code := Some (unit_id row)\<rparr>))"
    by (rule return_created_row
        [where P = "\<lambda>r. r\<lparr>qr_code := Some (unit_id row)\<rparr> = row\<lparr>qr_code := Some (unit_id row)\<rparr> \<and>
           (fault_at 1 s0 = None \<longrightarrow> r = row\<lparr>qr_code := Some (unit_id row)\<rparr>)"])
      (rule joins, assumption, simp)
  then obtain U where U: "fst ?r = Inr U"
    "(u_row U)\<lparr>qr_code := Some (unit_id row)\<rparr> = row\<lparr>qr_code := Some (unit_id row)\<rparr>"
    "fault_at 1 s0 = None \<longrightarrow> u_row U = row\<lparr>qr_code := Some (unit_id row)\<rparr>"
    unfolding run by auto
  have ok: "\<not> isl (fst ?r)"
    using U(1) by simp
  have ret: "(u_row (projr (fst ?r)))\<lparr>qr_code := Some (gen_id (next_id s0))\<rparr> =
      created_row input userId clinicId (the drugId) s0"
    using U(1,2) by (simp add: row_def created_row_def)
  have ret': "fault_at 1 s0 = None \<longrightarrow>
      u_row (projr (fst ?r)) = created_row input userId clinicId (the drugId) s0"
    using U(1,3) by (simp add: row_def created_row_def)
  have "map quantities (units (snd ?r)) =
          map quantities (units s0) @ [(gen_id (next_id s0), cu_totalQuantity input, cu_availableQuantity input)]"
    unfolding run using return_created_frame [of "row\<lparr>qr_code := Some (unit_id row)\<rparr>" s3]
    by (simp add: fr3 qu2) (simp add: quantities_def row_def)
  moreover have "transactions (snd ?r) =
     (case fault_at 2 s0 of
        None \<Rightarrow> transactions s0 @ [check_in_row input userId clinicId s0]
      | Some e \<Rightarrow> transactions s0)"
    unfolding run using return_created_frame [of "row\<lparr>qr_code := Some (unit_id row)\<rparr>" s3]
    by (simp add: t3)
  moreover have "\<forall>e. fault_at 2 s0 = Some e \<longrightarrow>
            ''Error creating transaction: '' @ e \<in> set (console (snd ?r))"
    unfolding run using return_created_frame [of "row\<lparr>qr_code := Some (unit_id row)\<rparr>" s3] c3
    by blast
  ultimately show ?thesis using ok ret ret' by blast
qed

text \<open>
  Filing 100 next to a unit of 900: with the third storage call failing, the new unit is
  there, the ledger is empty and the failure is logged; with no failure the ledger has the
  check-in of 100.
\<close>

theorem createUnit_check_in_best_effort_witness:
  "\<not> isl (fst (createUnit no_catalogue (ex_create 100) ''usr'' ''c1''
      (ex_state [ex_unit ''A'' 900 900 20089] [None, None, Some ''boom'']))) \<and>
   quantities (u_row (projr (fst (createUnit no_catalogue (ex_create 100) ''usr'' ''c1''
      (ex_state [ex_unit ''A'' 900 900 20089] [None, None, Some ''boom'']))))) = (''id-0'', 100, 100) \<and>
   qr_code (u_row (projr (fst (createUnit no_catalogue (ex_create 100) ''usr'' ''c1''
      (ex_state [ex_unit ''A'' 900 900 20089] [None, None, Some ''boom'']))))) = Some ''id-0'' \<and>
   map quantities (units (snd (createUnit no_catalogue (ex_create 100) ''usr'' ''c1''
      (ex_state [ex_unit ''A'' 900 900 20089] [None, None, Some ''boom'']))))
     = [(''A'', 900, 900), (''id-0'', 100, 100)] \<and>
   transactions (snd (createUnit no_catalogue (ex_create 100) ''usr'' ''c1''
      (ex_state [ex_unit ''A'' 900 900 20089] [None, None, Some ''boom'']))) = [] \<and>
   ''Error creating transaction: boom'' \<in> set (console (snd (createUnit no_catalogue (ex_create 100)
      ''usr'' ''c1'' (ex_state [ex_unit ''A'' 900 900 20089] [None, None, Some ''boom''])))) \<and>
   map (\<lambda>t. (tx_type t, tx_quantity t, tx_unit_id t))
     (transactions (snd (createUnit no_catalogue (ex_create 100) ''usr'' ''c1''
        (ex_state [ex_unit ''A'' 900 900 20089] [])))) = [(check_in, 100, ''id-0'')]"
proof -
  let ?s = "ex_state [ex_unit ''A'' 900 900 20089] [None, None, Some ''boom'']"
  let ?t = "ex_state [ex_unit ''A'' 900 900 20089] []"
  have r: "resolve_drug_id no_catalogue (ex_create 100) ?s = (Inr (Some ''d1''), ?s)"
    and r': "resolve_drug_id no_catalogue (ex_create 100) ?t = (Inr (Some ''d1''), ?t)"
    by code_simp+
  have t: "truthy (Some ''d1'')"
    by simp
  have l: "getLotById (cu_lotId (ex_create 100)) ''c1'' ?s = Some ex_lot"
    and l': "getLotById (cu_lotId (ex_create 100)) ''c1'' ?t = Some ex_lot"
    by code_simp+
  have cur: "getLotCurrentCapacity (cu_lotId (ex_create 100)) ?s = 900"
    and cur': "getLotCurrentCapacity (cu_lotId (ex_create 100)) ?t = 900"
    by code_simp+
  have q: "cu_totalQuantity (ex_create 100) = 100" "cu_availableQuantity (ex_create 100) = 100"
    by (simp_all add: ex_create_def)
  have c: "\<forall>cap. max_capacity ex_lot = Some cap \<longrightarrow>
      getLotCurrentCapacity (cu_lotId (ex_create 100)) ?s + cu_totalQuantity (ex_create 100) \<le> cap"
    and c': "\<forall>cap. max_capacity ex_lot = Some cap \<longrightarrow>
      getLotCurrentCapacity (cu_lotId (ex_create 100)) ?t + cu_totalQuantity (ex_create 100) \<le> cap"
    unfolding cur cur' q by (simp_all add: ex_lot_def)
  have f0: "fault_at 0 ?s = None" and f0': "fault_at 0 ?t = None"
    by code_simp+
  have f2: "fault_at 2 ?s = Some ''boom''" and f2': "fault_at 2 ?t = None"
    by code_simp+
  have d: "find (\<lambda>d. d_drug_id d = the (Some ''d1'')) (drugs ?s) \<noteq> None"
    and d': "find (\<lambda>d. d_drug_id d = the (Some ''d1'')) (drugs ?t) \<noteq> None"
    by code_simp+
  have u: "join_user ?s ''usr'' \<noteq> None" and u': "join_user ?t ''usr'' \<noteq> None"
    by code_simp+
  have old: "map quantities (units ?s) = [(''A'', 900, 900)]"
    by code_simp
  have new: "gen_id (next_id ?s) = ''id-0''" "gen_id (next_id ?t) = ''id-0''"
    by code_simp+
  have tx: "transactions ?s = []" "transactions ?t = []"
    by (simp_all add: ex_state_def)
  have row: "map (\<lambda>t. (tx_type t, tx_quantity t, tx_unit_id t))
      [check_in_row (ex_create 100) ''usr'' ''c1'' ?t] = [(check_in, 100, ''id-0'')]"
    by code_simp
  have cr: "quantities (created_row (ex_create 100) ''usr'' ''c1'' (the (Some ''d1'')) ?s)
      = (''id-0'', 100, 100)"
    "qr_code (created_row (ex_create 100) ''usr'' ''c1'' (the (Some ''d1'')) ?s) = Some ''id-0''"
    by code_simp+
  have f1: "fault_at 1 ?s = None"
    by code_simp
  note a = createUnit_check_in_best_effort [OF r t l c f0 d u]
  from a f1 have "u_row (projr (fst (createUnit no_catalogue (ex_create 100) ''usr'' ''c1'' ?s)))
      = created_row (ex_create 100) ''usr'' ''c1'' (the (Some ''d1'')) ?s"
    by blast
  with cr have ret: "quantities (u_row (projr (fst (createUnit no_catalogue (ex_create 100) ''usr'' ''c1'' ?s))))
      = (''id-0'', 100, 100)"
    "qr_code (u_row (projr (fst (createUnit no_catalogue (ex_create 100) ''usr'' ''c1'' ?s))))
      = Some ''id-0''"
    by simp_all
  from a createUnit_check_in_best_effort [OF r' t l' c' f0' d' u'] row ret
  show ?thesis
    unfolding f2 f2' old new q tx by simp
qed

section \<open>Single-unit checkout\<close>

lemma set_available_same:
  assumes "single (filter (\<lambda>r. unit_id r = uid \<and> clinic_id r = cid) rows) = Some u"
  shows "set_available uid cid (available_quantity u) rows = rows"
proof -
  have "r = u" if "r \<in> set rows" "unit_id r = uid" "clinic_id r = cid" for r
  proof -
    from assms have "filter (\<lambda>r. unit_id r = uid \<and> clinic_id r = cid) rows = [u]"
      by (rule single_SomeD)
    moreover from that have "r \<in> set (filter (\<lambda>r. unit_id r = uid \<and> clinic_id r = cid) rows)"
      by simp
    ultimately show ?thesis by simp
  qed
  then show ?thesis
    unfolding set_available_def by (intro map_idI) auto
qed

lemma set_available_twice [simp]:
  "set_available uid cid v (set_available uid cid w rows) = set_available uid cid v rows"
  by (simp add: set_available_def comp_def)




section \<open>FEFO allocation: compensation\<close>

lemma add_back_ids [simp]: "unit_id (add_back c x r) = unit_id r" "clinic_id (add_back c x r) = clinic_id r"
  by (simp_all add: add_back_def)

lemma set_available_to_single:
  assumes "single (filter (\<lambda>r. unit_id r = uid \<and> clinic_id r = cid) rows) = Some u"
  shows "set_available uid cid (available_quantity u + n) rows =
         map (\<lambda>r. if unit_id r = uid \<and> clinic_id r = cid
                   then r\<lparr>available_quantity := available_quantity r + n\<rparr> else r) rows"
proof -
  have "r = u" if "r \<in> set rows" "unit_id r = uid" "clinic_id r = cid" for r
  proof -
    from assms have "filter (\<lambda>r. unit_id r = uid \<and> clinic_id r = cid) rows = [u]"
      by (rule single_SomeD)
    moreover from that have "r \<in> set (filter (\<lambda>r. unit_id r = uid \<and> clinic_id r = cid) rows)"
      by simp
    ultimately show ?thesis by simp
  qed
  then show ?thesis
    unfolding set_available_def by (intro map_cong) auto
qed

lemma rollback_step_units:
  "units (rollback_step c x s) = units s \<or> units (rollback_step c x s) = map (add_back c x) (units s)"
proof (cases "fault_at 0 s")
  case (Some e)
  then show ?thesis by (simp add: rollback_step_def select_unit_def storage_call_eq)
next
  case None
  show ?thesis
  proof (cases "single (filter (\<lambda>r. unit_id r = unitId x \<and> clinic_id r = c) (units s))")
    case n: None
    with None show ?thesis by (simp add: rollback_step_def select_unit_def storage_call_eq)
  next
    case (Some r)
    show ?thesis
    proof (cases "fault_at 1 s")
      case None': None
      have "units (rollback_step c x s) = set_available (unitId x) c (available_quantity r + quantityTaken x) (units s)"
        using None Some None'
        by (simp add: rollback_step_def select_unit_def update_available_def storage_call_eq fault_at_def)
      also have "\<dots> = map (add_back c x) (units s)"
        unfolding set_available_to_single [OF Some] add_back_def ..
      finally show ?thesis ..
    next
      case s2: (Some e)
      with None Some show ?thesis
        by (simp add: rollback_step_def select_unit_def update_available_def storage_call_eq fault_at_def)
    qed
  qed
qed

lemma rollback_step_ok:
  assumes "fault_at 0 s = None" "fault_at 1 s = None"
    and "single (filter (\<lambda>r. unit_id r = unitId x \<and> clinic_id r = c) (units s)) = Some r"
  shows "rollback_step c x s = s\<lparr>faults := tl (tl (faults s)), units := map (add_back c x) (units s)\<rparr>"
proof -
  have "set_available (unitId x) c (available_quantity r + quantityTaken x) (units s) = map (add_back c x) (units s)"
    unfolding set_available_to_single [OF assms(3)] add_back_def ..
  then show ?thesis
    using assms
    by (simp add: rollback_step_def select_unit_def update_available_def storage_call_eq fault_at_def)
qed

lemma rollback_step_frame:
  "transactions (rollback_step c x s) = transactions s \<and> console (rollback_step c x s) = console s \<and>
   drugs (rollback_step c x s) = drugs s \<and> next_id (rollback_step c x s) = next_id s"
  by (simp add: rollback_step_def select_unit_def update_available_def storage_call_eq
      split: option.splits)


lemma add_back_all_Nil [simp]: "add_back_all c [] r = r"
  by (simp add: add_back_all_def)

lemma add_back_all_Cons [simp]: "add_back_all c (x # xs) r = add_back_all c xs (add_back c x r)"
  by (simp add: add_back_all_def)

lemma add_back_all_snoc [simp]: "add_back_all c (xs @ [x]) r = add_back c x (add_back_all c xs r)"
  by (simp add: add_back_all_def)

lemma add_back_all_ids [simp]:
  "unit_id (add_back_all c used r) = unit_id r" "clinic_id (add_back_all c used r) = clinic_id r"
  by (induction used arbitrary: r) simp_all



lemma has_one_map:
  "(\<And>r. unit_id (f r) = unit_id r \<and> clinic_id (f r) = clinic_id r) \<Longrightarrow>
   has_one uid c (map f rows) = has_one uid c rows"
  by (simp add: has_one_def filter_map comp_def)




lemma fefo_loop_insert_fails:
  assumes "0 < rem" "fault_at 0 s = None" "fault_at 1 s = Some e"
  shows "fefo_loop input uid c ((u, d) # rest) rem txs used s =
    (Inl (AllocationFailed (''Failed to create transaction: '' @ or_unknown e)),
     snd (update_available (unit_id u) c (available_quantity u)
       (rollback_used c used
          (console_error ''FEFO: Error creating transaction:'' e
             (s\<lparr>units := set_available (unit_id u) c
                  (available_quantity u - min rem (available_quantity u)) (units s),
                faults := tl (tl (faults s))\<rparr>)))))"
proof -
  let ?take = "min rem (available_quantity u)"
  let ?s1 = "s\<lparr>units := set_available (unit_id u) c (available_quantity u - ?take) (units s),
                faults := tl (faults s)\<rparr>"
  let ?ins = "\<lparr>transaction_id = [], timestamp = 0, tx_type = check_out,
                tx_quantity = ?take, tx_unit_id = unit_id u,
                patient_name = fr_patientName input,
                patient_reference_id = fr_patientReferenceId input,
                tx_user_id = uid, tx_notes = Some (fefo_note input (length used)),
                tx_clinic_id = c\<rparr>"
  have up: "update_available (unit_id u) c (available_quantity u - ?take) s = (None, ?s1)"
    using assms(2) by (simp add: update_available_def storage_call_eq)
  have ins: "insert_transaction ?ins ?s1 = (Inl e, ?s1\<lparr>faults := tl (tl (faults s))\<rparr>)"
    using assms(3) by (simp add: insert_transaction_def storage_call_eq fault_at_def Let_def)
  show ?thesis
    using assms(1) up ins by (simp add: Let_def)
qed

lemma fetch_transaction_frame:
  "units (snd (fetch_transaction tid s)) = units s \<and>
   transactions (snd (fetch_transaction tid s)) = transactions s \<and>
   faults (snd (fetch_transaction tid s)) = tl (faults s) \<and>
   drugs (snd (fetch_transaction tid s)) = drugs s"
  by (simp add: fetch_transaction_def storage_call_eq split: option.splits)

lemma fefo_loop_step_ok:
  assumes "0 < rem" "fault_at 0 s = None" "fault_at 1 s = None"
  shows "\<exists>t s4.
    fefo_loop input uid c ((u, Some dr) # rest) rem txs used s =
      fefo_loop input uid c rest (rem - min rem (available_quantity u)) (txs @ [t])
        (used @ [\<lparr>unitId = unit_id u, quantityTaken = min rem (available_quantity u),
                  expiryDate = expiry_date u, medicationName = medication_name dr\<rparr>]) s4 \<and>
    units s4 = set_available (unit_id u) c
                 (available_quantity u - min rem (available_quantity u)) (units s) \<and>
    faults s4 = drop 3 (faults s) \<and>
    length (transactions s4) = Suc (length (transactions s))"
proof -
  let ?take = "min rem (available_quantity u)"
  let ?s1 = "s\<lparr>units := set_available (unit_id u) c (available_quantity u - ?take) (units s),
                faults := tl (faults s)\<rparr>"
  let ?ins = "\<lparr>transaction_id = [], timestamp = 0, tx_type = check_out,
                tx_quantity = ?take, tx_unit_id = unit_id u,
                patient_name = fr_patientName input,
                patient_reference_id = fr_patientReferenceId input,
                tx_user_id = uid, tx_notes = Some (fefo_note input (length used)),
                tx_clinic_id = c\<rparr>"
  let ?row = "\<lparr>transaction_id = gen_id (next_id s), timestamp = now s, tx_type = check_out,
                tx_quantity = ?take, tx_unit_id = unit_id u,
                patient_name = fr_patientName input,
                patient_reference_id = fr_patientReferenceId input,
                tx_user_id = uid, tx_notes = Some (fefo_note input (length used)),
                tx_clinic_id = c\<rparr>"
  let ?s2 = "s\<lparr>units := set_available (unit_id u) c (available_quantity u - ?take) (units s),
                transactions := transactions s @ [?row],
                next_id := Suc (next_id s), faults := tl (tl (faults s))\<rparr>"
  have up: "update_available (unit_id u) c (available_quantity u - ?take) s = (None, ?s1)"
    using assms(2) by (simp add: update_available_def storage_call_eq)
  have ins: "insert_transaction ?ins ?s1 = (Inr ?row, ?s2)"
    using assms(3) by (simp add: insert_transaction_def storage_call_eq fault_at_def Let_def)
  obtain fetched s3 where fe: "fetch_transaction (transaction_id ?row) ?s2 = (fetched, s3)"
    by (cases "fetch_transaction (transaction_id ?row) ?s2")
  from fetch_transaction_frame [of "transaction_id ?row" ?s2] fe
  have fr3: "units s3 = units ?s2" "transactions s3 = transactions ?s2" "faults s3 = tl (faults ?s2)"
    by simp_all
  define s4 where "s4 = (case fetched of
      Inl fe \<Rightarrow> console_error ''FEFO: Error fetching complete transaction:'' fe s3
    | Inr c \<Rightarrow> s3)"
  define t where "t = (case fetched of Inr c \<Rightarrow> c | Inl fe \<Rightarrow> formatTransaction ?row None None)"
  have fr4: "units s4 = units s3" "transactions s4 = transactions s3" "faults s4 = faults s3"
    by (simp_all add: s4_def console_error_def split: sum.splits)
  have "fefo_loop input uid c ((u, Some dr) # rest) rem txs used s =
      fefo_loop input uid c rest (rem - ?take) (txs @ [t])
        (used @ [\<lparr>unitId = unit_id u, quantityTaken = ?take,
                  expiryDate = expiry_date u, medicationName = medication_name dr\<rparr>]) s4"
    using assms(1) up ins fe by (simp add: Let_def s4_def t_def)
  moreover have "units s4 = set_available (unit_id u) c (available_quantity u - ?take) (units s)"
    by (simp add: fr4 fr3)
  moreover have "faults s4 = drop 3 (faults s)"
    by (simp add: fr4 fr3 drop_Suc numeral_3_eq_3 tl_drop)
  moreover have "length (transactions s4) = Suc (length (transactions s))"
    by (simp add: fr4 fr3)
  ultimately show ?thesis by blast
qed




lemma unit_id_set_available [simp]: "map unit_id (set_available uid c v rows) = map unit_id rows"
  by (simp add: set_available_def comp_def)

lemma has_one_set_available [simp]: "has_one x c (set_available uid c' v rows) = has_one x c rows"
  unfolding set_available_def by (rule has_one_map) simp

lemma in_set_available_other:
  "r \<in> set rows \<Longrightarrow> unit_id r \<noteq> uid \<Longrightarrow> r \<in> set (set_available uid c v rows)"
  by (force simp: set_available_def)







lemma fefo_rows_props:
  "p \<in> set (fefo_rows c ids s) \<Longrightarrow>
   fst p \<in> set (units s) \<and> clinic_id (fst p) = c \<and> 0 < available_quantity (fst p) \<and>
   drug_id (fst p) \<in> set ids \<and> snd p = join_drug s (fst p)"
  by (auto simp: fefo_rows_def)

lemma fefo_rows_distinct:
  "distinct (map unit_id (units s)) \<Longrightarrow> distinct (map (\<lambda>p. unit_id (fst p)) (fefo_rows c ids s))"
  by (auto simp: fefo_rows_def comp_def distinct_map intro: inj_on_subset)



text \<open>
  The write that undoes the decrement of the current unit puts back the quantity read at the
  start of the walk. With no other writer that is what reading the unit again and adding
  the taken quantity gives.
\<close>

lemma snapshot_write_is_add_back:
  assumes "fault_at 0 t = None" "fault_at 1 t = None"
    and "unit_in_clinic (unit_id u) c t = Some (u\<lparr>available_quantity := available_quantity u - n\<rparr>)"
  shows "units (rollback_step c \<lparr>unitId = unit_id u, quantityTaken = n, expiryDate = ed,
                                  medicationName = mn\<rparr> t)
         = units (snd (update_available (unit_id u) c (available_quantity u) t))"
proof -
  let ?x = "\<lparr>unitId = unit_id u, quantityTaken = n, expiryDate = ed, medicationName = mn\<rparr>"
  let ?r = "u\<lparr>available_quantity := available_quantity u - n\<rparr>"
  have one: "single (filter (\<lambda>r. unit_id r = unitId ?x \<and> clinic_id r = c) (units t)) = Some ?r"
    using assms(3) by (simp add: unit_in_clinic_def)
  have "units (rollback_step c ?x t) = map (add_back c ?x) (units t)"
    by (simp add: rollback_step_ok [OF assms(1,2) one])
  also have "\<dots> = set_available (unit_id u) c (available_quantity ?r + n) (units t)"
    using set_available_to_single [of "unit_id u" c "units t" ?r n] one
    by (simp add: add_back_def)
  also have "\<dots> = units (snd (update_available (unit_id u) c (available_quantity u) t))"
    using assms(1) by (simp add: update_available_def storage_call_eq)
  finally show ?thesis .
qed



section \<open>The invariant of a unit\<close>

lemma shrunk_keeps: "shrunk r r' \<Longrightarrow> keeps_invariant r r'"
  by (auto simp: shrunk_def keeps_invariant_def unit_invariant_def)

lemma walk_rel_shrunk: "walk_rel c used r r' \<Longrightarrow> shrunk r r'"
  by (auto simp: walk_rel_def shrunk_def)

lemma walk_rel_ids: "walk_rel c used r r' \<Longrightarrow> unit_id r' = unit_id r \<and> clinic_id r' = clinic_id r"
  by (auto simp: walk_rel_def)

lemma walk_rel_refl: "walk_rel c [] r r"
  by (simp add: walk_rel_def)

lemma walk_rel_tail: "walk_rel c (x # xs) r r' \<Longrightarrow> walk_rel c xs r r'"
  by (auto simp: walk_rel_def)

lemma walk_rel_add_back:
  assumes "walk_rel c (x # xs) r r'" and "unitId x \<notin> unitId ` set xs"
  shows "walk_rel c xs r (add_back c x r')"
proof (cases "unitId x = unit_id r \<and> clinic_id r = c")
  case True
  with assms(1) obtain v where v: "r' = r\<lparr>available_quantity := v\<rparr>" "0 \<le> v"
    "0 \<le> quantityTaken x" "v + quantityTaken x \<le> available_quantity r"
    by (auto simp: walk_rel_def)
  have "\<forall>y\<in>set xs. unitId y \<noteq> unit_id r"
    using assms(2) True by (metis imageI)
  with True v show ?thesis
    by (auto simp: walk_rel_def add_back_def)
next
  case False
  with walk_rel_ids [OF assms(1)] have "add_back c x r' = r'"
    by (auto simp: add_back_def)
  with assms(1) show ?thesis
    by (simp add: walk_rel_tail)
qed

lemma rollback_used_frame:
  "transactions (rollback_used c used s) = transactions s"
  by (induction used arbitrary: s) (simp_all add: rollback_step_frame)

lemma rollback_used_rel:
  assumes "list_all2 (walk_rel c used) T0 (units s)" and "distinct (map unitId used)"
  shows "list_all2 (walk_rel c []) T0 (units (rollback_used c used s))"
  using assms
proof (induction used arbitrary: s)
  case Nil
  then show ?case by simp
next
  case (Cons x xs)
  have "list_all2 (walk_rel c xs) T0 (units (rollback_step c x s))"
    using rollback_step_units [of c x s]
  proof
    assume "units (rollback_step c x s) = units s"
    with Cons.prems(1) show ?thesis
      by (auto elim!: list_all2_mono intro: walk_rel_tail)
  next
    assume "units (rollback_step c x s) = map (add_back c x) (units s)"
    moreover have "unitId x \<notin> unitId ` set xs"
      using Cons.prems(2) by simp
    ultimately show ?thesis
      using Cons.prems(1)
      by (auto simp: list_all2_map2 elim!: list_all2_mono intro: walk_rel_add_back)
  qed
  moreover have "distinct (map unitId xs)"
    using Cons.prems(2) by simp
  ultimately show ?case
    by (simp add: Cons.IH)
qed


lemma list_all2_partner:
  assumes "list_all2 R xs ys" "y \<in> set ys"
  shows "\<exists>x\<in>set xs. R x y"
proof -
  from assms(2) obtain i where i: "i < length ys" "ys ! i = y"
    by (auto simp: in_set_conv_nth)
  with assms(1) have "xs ! i \<in> set xs" "R (xs ! i) y"
    by (auto simp: list_all2_conv_all_nth)
  then show ?thesis by blast
qed

lemma fefo_loop_done:
  "rem \<le> 0 \<Longrightarrow> snd (fefo_loop input uid c rows rem txs used s) = s"
  by (cases rows) auto

lemma fefo_loop_update_fails:
  assumes "0 < rem" "fault_at 0 s = Some e"
  shows "snd (fefo_loop input uid c ((u, d) # rest) rem txs used s) =
    rollback_used c used
      (console_error ''FEFO: Error updating unit quantity:'' e (s\<lparr>faults := tl (faults s)\<rparr>))"
proof -
  have "update_available (unit_id u) c
      (available_quantity u - min rem (available_quantity u)) s
    = (Some e, s\<lparr>faults := tl (faults s)\<rparr>)"
    using assms(2) by (simp add: update_available_def storage_call_eq)
  with assms(1) show ?thesis by (simp add: Let_def)
qed

lemma fefo_loop_no_drug:
  assumes "0 < rem" "fault_at 0 s = None" "fault_at 1 s = None"
  shows "units (snd (fefo_loop input uid c ((u, None) # rest) rem txs used s)) =
    set_available (unit_id u) c (available_quantity u - min rem (available_quantity u)) (units s)"
proof -
  let ?take = "min rem (available_quantity u)"
  let ?s1 = "s\<lparr>units := set_available (unit_id u) c (available_quantity u - ?take) (units s),
                faults := tl (faults s)\<rparr>"
  let ?ins = "\<lparr>transaction_id = [], timestamp = 0, tx_type = check_out,
                tx_quantity = ?take, tx_unit_id = unit_id u,
                patient_name = fr_patientName input,
                patient_reference_id = fr_patientReferenceId input,
                tx_user_id = uid, tx_notes = Some (fefo_note input (length used)),
                tx_clinic_id = c\<rparr>"
  let ?row = "\<lparr>transaction_id = gen_id (next_id s), timestamp = now s, tx_type = check_out,
                tx_quantity = ?take, tx_unit_id = unit_id u,
                patient_name = fr_patientName input,
                patient_reference_id = fr_patientReferenceId input,
                tx_user_id = uid, tx_notes = Some (fefo_note input (length used)),
                tx_clinic_id = c\<rparr>"
  let ?s2 = "s\<lparr>units := set_available (unit_id u) c (available_quantity u - ?take) (units s),
                transactions := transactions s @ [?row],
                next_id := Suc (next_id s), faults := tl (tl (faults s))\<rparr>"
  have up: "update_available (unit_id u) c (available_quantity u - ?take) s = (None, ?s1)"
    using assms(2) by (simp add: update_available_def storage_call_eq)
  have ins: "insert_transaction ?ins ?s1 = (Inr ?row, ?s2)"
    using assms(3) by (simp add: insert_transaction_def storage_call_eq fault_at_def Let_def)
  obtain fetched s3 where fe: "fetch_transaction (transaction_id ?row) ?s2 = (fetched, s3)"
    by (cases "fetch_transaction (transaction_id ?row) ?s2")
  from fetch_transaction_frame [of "transaction_id ?row" ?s2] fe
  have fr3: "units s3 = units ?s2"
    by simp
  have "units (snd (fefo_loop input uid c ((u, None) # rest) rem txs used s)) =
      units (case fetched of
        Inl fe \<Rightarrow> console_error ''FEFO: Error fetching complete transaction:'' fe s3
      | Inr c \<Rightarrow> s3)"
    using assms(1) up ins fe by (simp add: Let_def)
  also have "\<dots> = units s3"
    by (simp add: console_error_def split: sum.splits)
  finally show ?thesis
    by (simp add: fr3)
qed

text \<open>The table after one unit of the walk has been written.\<close>

lemma walk_rel_take:
  assumes rel: "list_all2 (walk_rel c used) T0 T"
    and dist: "distinct (map unit_id T0)"
    and u: "u \<in> set T" "clinic_id u = c" "unit_id u \<notin> unitId ` set used"
    and v: "0 \<le> t" "t \<le> available_quantity u"
  shows "list_all2 (walk_rel c (used @ [\<lparr>unitId = unit_id u, quantityTaken = t,
                                          expiryDate = ed, medicationName = mn\<rparr>])) T0
           (set_available (unit_id u) c (available_quantity u - t) T)"
proof -
  let ?x = "\<lparr>unitId = unit_id u, quantityTaken = t, expiryDate = ed, medicationName = mn\<rparr>"
  from list_all2_partner [OF rel u(1)]
  obtain ru where ru: "ru \<in> set T0" "walk_rel c used ru u"
    by blast
  then have ru_id: "unit_id ru = unit_id u" and ru_av: "available_quantity u \<le> available_quantity ru"
    by (auto simp: walk_rel_def)
  have "walk_rel c (used @ [?x]) r
          (if unit_id r' = unit_id u \<and> clinic_id r' = c
           then r'\<lparr>available_quantity := available_quantity u - t\<rparr> else r')"
    if r: "r \<in> set T0" "r' \<in> set T" "walk_rel c used r r'" for r r'
  proof (cases "unit_id r' = unit_id u")
    case True
    with walk_rel_ids [OF r(3)] ru_id have "unit_id r = unit_id ru" by simp
    with dist r(1) ru(1) have eq: "r = ru"
      by (auto simp: distinct_map inj_on_def)
    from walk_rel_ids [OF r(3)] True u(2,3) eq ru(2) walk_rel_ids [OF ru(2)]
    have cl: "clinic_id r' = c" "\<forall>y\<in>set used. unitId y \<noteq> unit_id r"
      by (auto simp: image_iff)
    from r(3) have "r'\<lparr>available_quantity := available_quantity u - t\<rparr>
        = r\<lparr>available_quantity := available_quantity u - t\<rparr>"
      by (auto simp: walk_rel_def)
    with True cl v ru_av eq ru_id show ?thesis
      by (auto simp: walk_rel_def)
  next
    case False
    with walk_rel_ids [OF r(3)] have "unitId ?x \<noteq> unit_id r" by simp
    with False r(3) show ?thesis
      by (auto simp: walk_rel_def)
  qed
  with rel show ?thesis
    unfolding set_available_def list_all2_map2
    by (rule list.rel_mono_strong)
qed


lemma walk_rel_mono: "walk_rel c used r r' \<Longrightarrow> set used' \<subseteq> set used \<Longrightarrow> walk_rel c used' r r'"
  unfolding walk_rel_def by blast

lemma walk_rel_written:
  assumes "list_all2 (walk_rel c used) T0 T" "distinct (map unit_id T0)"
    and "u \<in> set T" "clinic_id u = c" "unit_id u \<notin> unitId ` set used"
    and "0 \<le> t" "t \<le> available_quantity u"
  shows "list_all2 (walk_rel c used) T0 (set_available (unit_id u) c (available_quantity u - t) T)"
proof -
  have "list_all2 (walk_rel c (used @ [\<lparr>unitId = unit_id u, quantityTaken = t,
      expiryDate = 0, medicationName = []\<rparr>])) T0
      (set_available (unit_id u) c (available_quantity u - t) T)"
    using assms by (rule walk_rel_take)
  then show ?thesis
    by (rule list_all2_mono) (auto intro: walk_rel_mono)
qed

lemma shrunk_reset:
  assumes rel: "list_all2 (walk_rel c []) T0 T" and dist: "distinct (map unit_id T0)"
    and ru: "ru \<in> set T0" "unit_id ru = unit_id u" "available_quantity u \<le> available_quantity ru"
      "0 \<le> available_quantity u"
  shows "list_all2 shrunk T0 (set_available (unit_id u) c (available_quantity u) T)"
proof -
  have "shrunk r (if unit_id r' = unit_id u \<and> clinic_id r' = c
                  then r'\<lparr>available_quantity := available_quantity u\<rparr> else r')"
    if r: "r \<in> set T0" "r' \<in> set T" "walk_rel c [] r r'" for r r'
  proof (cases "unit_id r' = unit_id u")
    case True
    with walk_rel_ids [OF r(3)] ru(2) have "unit_id r = unit_id ru" by simp
    with dist r(1) ru(1) have eq: "r = ru"
      by (auto simp: distinct_map inj_on_def)
    from r(3) have "r'\<lparr>available_quantity := available_quantity u\<rparr>
        = r\<lparr>available_quantity := available_quantity u\<rparr>"
      by (auto simp: walk_rel_def)
    with eq ru(3,4) walk_rel_shrunk [OF r(3)] show ?thesis
      by (auto simp: shrunk_def)
  next
    case False
    with walk_rel_shrunk [OF r(3)] show ?thesis by simp
  qed
  with rel show ?thesis
    unfolding set_available_def list_all2_map2
    by (rule list.rel_mono_strong)
qed

lemma fefo_loop_shrunk:
  assumes "list_all2 (walk_rel c used) T0 (units s)"
    and "distinct (map unit_id T0)"
    and "distinct (map unitId used)"
    and "\<forall>p\<in>set rows. fst p \<in> set (units s) \<and> clinic_id (fst p) = c \<and>
           0 < available_quantity (fst p) \<and> unit_id (fst p) \<notin> unitId ` set used"
    and "distinct (map (\<lambda>p. unit_id (fst p)) rows)"
  shows "list_all2 shrunk T0 (units (snd (fefo_loop input uid c rows rem txs used s)))"
  using assms
proof (induction rows arbitrary: rem txs used s)
  case Nil
  then show ?case
    by (auto elim!: list_all2_mono intro: walk_rel_shrunk)
next
  case (Cons p rows)
  obtain u d where p: "p = (u, d)" by (cases p)
  from Cons.prems(4) p have u: "u \<in> set (units s)" "clinic_id u = c" "0 < available_quantity u"
    "unit_id u \<notin> unitId ` set used"
    by auto
  have end_rel: "list_all2 shrunk T0 T" if "list_all2 (walk_rel c us) T0 T" for us T
    using that by (rule list_all2_mono) (rule walk_rel_shrunk)
  show ?case
  proof (cases "rem \<le> 0")
    case True
    with Cons.prems(1) show ?thesis
      by (simp add: fefo_loop_done end_rel)
  next
    case False
    then have rem: "0 < rem" by simp
    let ?t = "min rem (available_quantity u)"
    have t: "0 \<le> ?t" "?t \<le> available_quantity u"
      using rem u(3) by simp_all
    let ?T1 = "set_available (unit_id u) c (available_quantity u - ?t) (units s)"
    have rel1: "list_all2 (walk_rel c used) T0 ?T1"
      using Cons.prems(1,2) u(1,2,4) t by (rule walk_rel_written)
    show ?thesis
    proof (cases "fault_at 0 s")
      case (Some e)
      let ?s1 = "console_error ''FEFO: Error updating unit quantity:'' e (s\<lparr>faults := tl (faults s)\<rparr>)"
      have "list_all2 (walk_rel c used) T0 (units ?s1)"
        using Cons.prems(1) by (simp add: console_error_def)
      then have "list_all2 (walk_rel c []) T0 (units (rollback_used c used ?s1))"
        using Cons.prems(3) by (rule rollback_used_rel)
      then show ?thesis
        unfolding p fefo_loop_update_fails [OF rem Some] by (rule end_rel)
    next
      case None
      show ?thesis
      proof (cases "fault_at 1 s")
        case (Some e)
        let ?s2 = "console_error ''FEFO: Error creating transaction:'' e
                     (s\<lparr>units := ?T1, faults := tl (tl (faults s))\<rparr>)"
        have "list_all2 (walk_rel c used) T0 (units ?s2)"
          using rel1 by (simp add: console_error_def)
        then have rel2: "list_all2 (walk_rel c []) T0 (units (rollback_used c used ?s2))"
          using Cons.prems(3) by (rule rollback_used_rel)
        from list_all2_partner [OF Cons.prems(1) u(1)]
        obtain ru where ru: "ru \<in> set T0" "walk_rel c used ru u"
          by blast
        then have ru': "unit_id ru = unit_id u" "available_quantity u \<le> available_quantity ru"
          by (auto simp: walk_rel_def)
        have "units (snd (update_available (unit_id u) c (available_quantity u)
                 (rollback_used c used ?s2))) = units (rollback_used c used ?s2) \<or>
              units (snd (update_available (unit_id u) c (available_quantity u)
                 (rollback_used c used ?s2))) =
                set_available (unit_id u) c (available_quantity u) (units (rollback_used c used ?s2))"
          by (simp add: update_available_def storage_call_eq split: option.splits)
        then have "list_all2 shrunk T0 (units (snd (update_available (unit_id u) c
            (available_quantity u) (rollback_used c used ?s2))))"
        proof
          assume a: "units (snd (update_available (unit_id u) c (available_quantity u)
                 (rollback_used c used ?s2))) = units (rollback_used c used ?s2)"
          show ?thesis unfolding a using rel2 by (rule end_rel)
        next
          assume a: "units (snd (update_available (unit_id u) c (available_quantity u)
                 (rollback_used c used ?s2))) =
                set_available (unit_id u) c (available_quantity u) (units (rollback_used c used ?s2))"
          show ?thesis unfolding a
            using rel2 Cons.prems(2) ru(1) ru' u(3) by (intro shrunk_reset) simp_all
        qed
        then show ?thesis
          unfolding p fefo_loop_insert_fails [OF rem None Some] by simp
      next
        case None': None
        show ?thesis
        proof (cases d)
          case dn: None
          show ?thesis
            unfolding p dn fefo_loop_no_drug [OF rem None None']
            using rel1 by (rule end_rel)
        next
          case (Some dr)
          let ?x = "\<lparr>unitId = unit_id u, quantityTaken = ?t,
                     expiryDate = expiry_date u, medicationName = medication_name dr\<rparr>"
          from fefo_loop_step_ok [OF rem None None', of input uid c u dr rows txs used]
          obtain tx s4 where
            eq: "fefo_loop input uid c ((u, Some dr) # rows) rem txs used s =
                 fefo_loop input uid c rows (rem - ?t) (txs @ [tx]) (used @ [?x]) s4"
            and u4: "units s4 = ?T1"
            by auto
          have a1: "list_all2 (walk_rel c (used @ [?x])) T0 (units s4)"
            unfolding u4 using Cons.prems(1,2) u(1,2,4) t by (rule walk_rel_take)
          have a3: "distinct (map unitId (used @ [?x]))"
            using Cons.prems(3) u(4) by (auto simp: image_iff)
          have dis: "\<forall>q\<in>set rows. unit_id (fst q) \<noteq> unit_id u"
            using Cons.prems(5) p by (auto simp: image_iff)
          have a4: "\<forall>q\<in>set rows. fst q \<in> set (units s4) \<and> clinic_id (fst q) = c \<and>
              0 < available_quantity (fst q) \<and> unit_id (fst q) \<notin> unitId ` set (used @ [?x])"
            unfolding u4 using Cons.prems(4) dis
            by (auto intro: in_set_available_other)
          have a5: "distinct (map (\<lambda>p. unit_id (fst p)) rows)"
            using Cons.prems(5) by simp
          show ?thesis
            unfolding p Some eq by (rule Cons.IH [OF a1 Cons.prems(2) a3 a4 a5])
        qed
      qed
    qed
  qed
qed


lemma list_all2_sameI: "(\<And>x. x \<in> set xs \<Longrightarrow> R x x) \<Longrightarrow> list_all2 R xs xs"
  by (simp add: list_all2_same)

lemma shrunk_refl: "shrunk r r"
  by (simp add: shrunk_def)

lemma checkOutMedicationFEFO_cases:
  "units (snd (checkOutMedicationFEFO input userId clinicId s)) = units s \<or>
   (\<exists>ids s2. units s2 = units s \<and>
      checkOutMedicationFEFO input userId clinicId s =
        fefo_loop input userId clinicId (fefo_rows clinicId ids s2) (fr_quantity input) [] [] s2)"
proof -
  obtain r s1 where r: "resolve_drugs input s = (r, s1)"
    by (cases "resolve_drugs input s")
  then have t1: "units s1 = units s"
    by (simp add: resolve_drugs_tables)
  obtain f s2 where f: "fetch_units clinicId (projr r) s1 = (f, s2)"
    by (cases "fetch_units clinicId (projr r) s1")
  then have t2: "units s2 = units s"
    using fetch_units_tables [OF f] t1 by simp
  have rows: "f = Inr (fefo_rows clinicId (projr r) s2)" if "\<not> isl f"
    using f that by (auto simp: fetch_units_def storage_call_eq split: option.splits)
  show ?thesis
  proof (cases "isl r \<or> isl f")
    case True
    with r f t1 t2 show ?thesis
      by (cases r; cases f) (auto simp: checkOutMedicationFEFO_def Let_def)
  next
    case False
    then obtain ids where ids: "r = Inr ids" by (cases r) auto
    from False rows have fr: "f = Inr (fefo_rows clinicId ids s2)" by (simp add: ids)
    from r f t2 show ?thesis
      unfolding ids fr
      by (auto simp: checkOutMedicationFEFO_def Let_def)
  qed
qed

lemma checkOutMedicationFEFO_shrunk:
  assumes "distinct (map unit_id (units s))"
  shows "list_all2 shrunk (units s) (units (snd (checkOutMedicationFEFO input userId clinicId s)))"
  using checkOutMedicationFEFO_cases [of input userId clinicId s]
proof (elim disjE exE conjE)
  assume "units (snd (checkOutMedicationFEFO input userId clinicId s)) = units s"
  then show ?thesis
    by (simp add: list_all2_same shrunk_refl)
next
  fix ids s2
  assume t: "units s2 = units s"
    and run: "checkOutMedicationFEFO input userId clinicId s =
        fefo_loop input userId clinicId (fefo_rows clinicId ids s2) (fr_quantity input) [] [] s2"
  have a1: "list_all2 (walk_rel clinicId []) (units s) (units s2)"
    unfolding t by (simp add: list_all2_same walk_rel_refl)
  have a4: "\<forall>p\<in>set (fefo_rows clinicId ids s2). fst p \<in> set (units s2) \<and>
      clinic_id (fst p) = clinicId \<and> 0 < available_quantity (fst p) \<and>
      unit_id (fst p) \<notin> unitId ` set []"
    using fefo_rows_props [of _ clinicId ids s2] by simp
  have a5: "distinct (map (\<lambda>p. unit_id (fst p)) (fefo_rows clinicId ids s2))"
    using assms by (intro fefo_rows_distinct) (simp add: t)
  show ?thesis
    unfolding run by (rule fefo_loop_shrunk [OF a1 assms _ a4 a5]) simp
qed

lemma checkOutUnit_units:
  "units (snd (checkOutUnit input userId clinicId s)) = units s \<or>
   (\<exists>unit. unit_in_clinic (co_unitId input) clinicId s = Some unit \<and>
      co_quantity input \<le> available_quantity unit \<and>
      units (snd (checkOutUnit input userId clinicId s)) =
        set_available (co_unitId input) clinicId
          (available_quantity unit - co_quantity input) (units s))"
proof (cases "fault_at 0 s = None \<and> unit_in_clinic (co_unitId input) clinicId s \<noteq> None")
  case False
  then have "select_unit (co_unitId input) clinicId s = (None, s\<lparr>faults := tl (faults s)\<rparr>)"
    by (auto simp: select_unit_def storage_call_eq unit_in_clinic_def split: option.splits)
  then show ?thesis by (simp add: checkOutUnit_def)
next
  case True
  then obtain unit where unit: "unit_in_clinic (co_unitId input) clinicId s = Some unit"
    and f0: "fault_at 0 s = None" by auto
  let ?s1 = "s\<lparr>faults := tl (faults s)\<rparr>"
  have sel: "select_unit (co_unitId input) clinicId s = (Some unit, ?s1)"
    using unit f0 by (simp add: select_unit_def storage_call_eq unit_in_clinic_def)
  have same: "set_available (co_unitId input) clinicId (available_quantity unit) (units s) = units s"
    using unit unfolding unit_in_clinic_def by (rule set_available_same)
  show ?thesis
  proof (cases "available_quantity unit < co_quantity input")
    case True
    with sel show ?thesis by (simp add: checkOutUnit_def)
  next
    case False
    with sel unit same show ?thesis
      by (auto simp: checkOutUnit_def update_available_def insert_transaction_def
          fetch_transaction_def storage_call_eq console_error_def Let_def
          split: option.splits sum.splits)
  qed
qed

lemma checkOutUnit_keeps:
  assumes "0 \<le> co_quantity input"
  shows "list_all2 keeps_invariant (units s) (units (snd (checkOutUnit input userId clinicId s)))"
  using checkOutUnit_units [of input userId clinicId s]
proof (elim disjE exE conjE)
  assume "units (snd (checkOutUnit input userId clinicId s)) = units s"
  then show ?thesis
    by (simp add: list_all2_same keeps_invariant_def)
next
  fix unit
  assume unit: "unit_in_clinic (co_unitId input) clinicId s = Some unit"
    and q: "co_quantity input \<le> available_quantity unit"
    and u: "units (snd (checkOutUnit input userId clinicId s)) =
        set_available (co_unitId input) clinicId
          (available_quantity unit - co_quantity input) (units s)"
  have "r = unit" if "r \<in> set (units s)" "unit_id r = co_unitId input" "clinic_id r = clinicId" for r
  proof -
    from unit have "filter (\<lambda>r. unit_id r = co_unitId input \<and> clinic_id r = clinicId) (units s) = [unit]"
      unfolding unit_in_clinic_def by (rule single_SomeD)
    moreover from that have
      "r \<in> set (filter (\<lambda>r. unit_id r = co_unitId input \<and> clinic_id r = clinicId) (units s))"
      by simp
    ultimately show ?thesis by simp
  qed
  with q assms show ?thesis
    unfolding u set_available_def list_all2_map2
    by (intro list_all2_sameI) (auto simp: keeps_invariant_def unit_invariant_def)
qed

lemma updateUnit_units:
  "units (snd (updateUnit uid updates clinicId s)) = units s \<or>
   units (snd (updateUnit uid updates clinicId s)) =
     map (\<lambda>x. if unit_id x = uid \<and> clinic_id x = clinicId
               then apply_unit_updates updates x else x) (units s)"
  by (simp add: updateUnit_def storage_call_eq Let_def split: option.splits)

lemma apply_unit_updates_id [simp]: "unit_id (apply_unit_updates updates r) = unit_id r"
  by (simp add: apply_unit_updates_def Let_def split: option.splits)

lemma updateUnit_keeps:
  assumes "\<forall>r\<in>set (units s). unit_id r = uid \<and> clinic_id r = clinicId \<and> unit_invariant r \<longrightarrow>
             unit_invariant (apply_unit_updates updates r)"
  shows "list_all2 keeps_invariant (units s) (units (snd (updateUnit uid updates clinicId s)))"
  using updateUnit_units [of uid updates clinicId s]
proof
  assume "units (snd (updateUnit uid updates clinicId s)) = units s"
  then show ?thesis
    by (simp add: list_all2_same keeps_invariant_def)
next
  assume u: "units (snd (updateUnit uid updates clinicId s)) =
     map (\<lambda>x. if unit_id x = uid \<and> clinic_id x = clinicId
               then apply_unit_updates updates x else x) (units s)"
  show ?thesis
    unfolding u list_all2_map2 using assms
    by (intro list_all2_sameI) (auto simp: keeps_invariant_def)
qed


lemma resolve_drug_id_units:
  assumes "\<forall>dd t. units (snd (getOrCreateDrug dd t)) = units t"
  shows "units (snd (resolve_drug_id getOrCreateDrug input s)) = units s"
proof (cases "cu_drugData input \<noteq> None \<and> \<not> truthy (cu_drugId input)")
  case True
  obtain r s0 where g: "getOrCreateDrug (the (cu_drugData input)) s = (r, s0)"
    by (cases "getOrCreateDrug (the (cu_drugData input)) s")
  with assms [rule_format, of "the (cu_drugData input)" s] have "units s0 = units s" by simp
  with True g show ?thesis
    by (cases r) (simp_all add: resolve_drug_id_def)
next
  case False
  then show ?thesis by (auto simp: resolve_drug_id_def)
qed

lemma createUnit_units:
  assumes "resolve_drug_id getOrCreateDrug input s = (r, s0)"
  shows "\<exists>f extra. units (snd (createUnit getOrCreateDrug input userId clinicId s)) =
           map f (units s0) @ extra \<and> (\<forall>x. quantities (f x) = quantities x)"
proof -
  let ?res = "createUnit getOrCreateDrug input userId clinicId s"
  let ?new = "\<lparr>unit_id = [], total_quantity = cu_totalQuantity input,
      available_quantity = cu_availableQuantity input,
      lot_id = cu_lotId input, expiry_date = cu_expiryDate input,
      date_created = 0, user_id = userId, drug_id = the (projr r),
      qr_code = None, optional_notes = cu_optionalNotes input,
      manufacturer_lot_number = cu_manufacturerLotNumber input,
      clinic_id = clinicId\<rparr>"
  have same: "?thesis" if "units (snd ?res) = units s0"
  proof -
    from that have "units (snd ?res) = map (\<lambda>x. x) (units s0) @ []" by simp
    then show ?thesis by blast
  qed
  consider (early) "units (snd ?res) = units s0"
    | (inserted) unit s1 where "insert_unit ?new s0 = (Inr unit, s1)"
        "?res = return_created (unit\<lparr>qr_code := Some (unit_id unit)\<rparr>)
                  (record_check_in input userId clinicId (unit_id unit)
                     (set_qr_code (unit_id unit) s1))"
  proof (cases r)
    case (Inl e)
    with assms have "units (snd ?res) = units s0" by (simp add: createUnit_def)
    then show ?thesis by (rule early)
  next
    case (Inr drugId)
    obtain ir s1 where ins: "insert_unit ?new s0 = (ir, s1)"
      by (cases "insert_unit ?new s0")
    then have u1: "isl ir \<Longrightarrow> units s1 = units s0"
      by (auto simp: insert_unit_def storage_call_eq Let_def split: option.splits)
    show ?thesis
    proof (cases ir)
      case (Inl e)
      with assms Inr ins u1 have "units (snd ?res) = units s0"
        by (auto simp: createUnit_def console_error_def split: option.splits)
      then show ?thesis by (rule early)
    next
      case ok: (Inr unit)
      show ?thesis
      proof (cases "units (snd ?res) = units s0")
        case True
        then show ?thesis by (rule early)
      next
        case False
        with assms Inr ins ok have "?res = return_created (unit\<lparr>qr_code := Some (unit_id unit)\<rparr>)
                  (record_check_in input userId clinicId (unit_id unit)
                     (set_qr_code (unit_id unit) s1))"
          by (auto simp: createUnit_def split: option.splits if_splits)
        with ins ok show ?thesis by (intro inserted) simp_all
      qed
    qed
  qed
  then show ?thesis
  proof cases
    case early
    then show ?thesis by (rule same)
  next
    case (inserted unit s1)
    define qr :: "unit_row \<Rightarrow> unit_row" where
      "qr = (\<lambda>r. if unit_id r = unit_id unit then r\<lparr>qr_code := Some (unit_id unit)\<rparr> else r)"
    from inserted(1) have u1: "units s1 = units s0 @ [unit]"
      by (auto simp: insert_unit_def storage_call_eq Let_def split: option.splits)
    have "units (snd ?res) = units (set_qr_code (unit_id unit) s1)"
      unfolding inserted(2) using return_created_frame record_check_in_frame by simp
    also have "\<dots> = units s1 \<or> \<dots> = map qr (units s1)"
      unfolding qr_def by (simp add: set_qr_code_units)
    finally have "units (snd ?res) = map (\<lambda>x. x) (units s0) @ [unit] \<or>
        units (snd ?res) = map qr (units s0) @ [qr unit]"
      by (simp add: u1)
    moreover have "quantities (qr x) = quantities x" for x
      by (simp add: qr_def quantities_def)
    ultimately show ?thesis by blast
  qed
qed

lemma createUnit_keeps:
  assumes "\<forall>dd t. units (snd (getOrCreateDrug dd t)) = units t"
  shows "list_all2 keeps_invariant (units s)
           (take (length (units s)) (units (snd (createUnit getOrCreateDrug input userId clinicId s))))"
proof -
  obtain r s0 where r: "resolve_drug_id getOrCreateDrug input s = (r, s0)"
    by (cases "resolve_drug_id getOrCreateDrug input s")
  with resolve_drug_id_units [OF assms, of input s] have t: "units s0 = units s" by simp
  from createUnit_units [OF r, of userId clinicId] obtain f extra where
    u: "units (snd (createUnit getOrCreateDrug input userId clinicId s)) = map f (units s) @ extra"
    and q: "\<forall>x. quantities (f x) = quantities x"
    unfolding t by blast
  have "keeps_invariant x (f x)" for x
    using q [rule_format, of x] by (simp add: keeps_invariant_def unit_invariant_def quantities_def)
  then show ?thesis
    unfolding u by (simp add: list_all2_map2 list_all2_same)
qed


text \<open>
  C4 as stated fails on the code: \<^verbatim>\<open>updateUnit\<close> writes the values it is given. A unit of 10
  holding 10 is set to hold 50.
\<close>

theorem updateUnit_invariant_counterexample:
  "unit_invariant (ex_unit ''A'' 10 10 20089) \<and>
   map quantities (units (snd (updateUnit ''A'' (ex_update 50) ''c1''
      (ex_state [ex_unit ''A'' 10 10 20089] [])))) = [(''A'', 10, 50)] \<and>
   \<not> list_all unit_invariant (units (snd (updateUnit ''A'' (ex_update 50) ''c1''
      (ex_state [ex_unit ''A'' 10 10 20089] []))))"
  by code_simp

text \<open>
  \<^verbatim>\<open>checkOutUnit\<close> does not check the sign of the quantity, which \<^verbatim>\<open>checkOutMedicationFEFO\<close>
  does: checking \<open>-5\<close> out of a unit of 10 holding 10 leaves it holding 15.
\<close>

lemma checkOutUnit_negative_quantity:
  "map quantities (units (snd (checkOutUnit (ex_checkout ''A'' (- 5)) ''usr'' ''c1''
      (ex_state [ex_unit ''A'' 10 10 20089] [])))) = [(''A'', 10, 15)]"
  by code_simp

text \<open>
  C4, as amended. Row by row, the units table after an operation has the units it had
  before, and each unit that had the invariant still has it, whatever the storage calls do:
  after \<^verbatim>\<open>createUnit\<close> (with a drug catalogue that does not write units; the new unit comes
  after the old ones), after \<^verbatim>\<open>updateUnit\<close> when the values it writes to the unit satisfy the
  invariant, after \<^verbatim>\<open>checkOutUnit\<close> of a quantity that is not negative, and after
  \<^verbatim>\<open>checkOutMedicationFEFO\<close> when the identifiers of the units are distinct.
\<close>

theorem core_operations_keep_unit_invariant:
  "((\<forall>dd t. units (snd (getOrCreateDrug dd t)) = units t) \<longrightarrow>
      list_all2 keeps_invariant (units s)
        (take (length (units s))
           (units (snd (createUnit getOrCreateDrug created userId clinicId s))))) \<and>
   ((\<forall>r\<in>set (units s). unit_id r = uid \<and> clinic_id r = clinicId \<and> unit_invariant r \<longrightarrow>
        unit_invariant (apply_unit_updates updates r)) \<longrightarrow>
      list_all2 keeps_invariant (units s) (units (snd (updateUnit uid updates clinicId s)))) \<and>
   (0 \<le> co_quantity checkout \<longrightarrow>
      list_all2 keeps_invariant (units s) (units (snd (checkOutUnit checkout userId clinicId s)))) \<and>
   (distinct (map unit_id (units s)) \<longrightarrow>
      list_all2 keeps_invariant (units s)
        (units (snd (checkOutMedicationFEFO request userId clinicId s))))"
proof (intro conjI impI)
  assume "\<forall>dd t. units (snd (getOrCreateDrug dd t)) = units t"
  then show "list_all2 keeps_invariant (units s)
        (take (length (units s))
           (units (snd (createUnit getOrCreateDrug created userId clinicId s))))"
    by (rule createUnit_keeps)
next
  assume "\<forall>r\<in>set (units s). unit_id r = uid \<and> clinic_id r = clinicId \<and> unit_invariant r \<longrightarrow>
        unit_invariant (apply_unit_updates updates r)"
  then show "list_all2 keeps_invariant (units s) (units (snd (updateUnit uid updates clinicId s)))"
    by (rule updateUnit_keeps)
next
  assume "0 \<le> co_quantity checkout"
  then show "list_all2 keeps_invariant (units s) (units (snd (checkOutUnit checkout userId clinicId s)))"
    by (rule checkOutUnit_keeps)
next
  assume "distinct (map unit_id (units s))"
  then have "list_all2 shrunk (units s) (units (snd (checkOutMedicationFEFO request userId clinicId s)))"
    by (rule checkOutMedicationFEFO_shrunk)
  then show "list_all2 keeps_invariant (units s)
        (units (snd (checkOutMedicationFEFO request userId clinicId s)))"
    by (rule list_all2_mono) (rule shrunk_keeps)
qed

text \<open>
  On the three example units: filing 100 more, setting unit \<open>A\<close> to hold 3, checking 4 out
  of \<open>A\<close>, and a FEFO checkout of 20 whose second insert fails all leave three units with
  the invariant.
\<close>

theorem core_operations_keep_unit_invariant_witness:
  "list_all unit_invariant (units (ex_state ex_three_units [])) \<and>
   list_all unit_invariant (units (snd (createUnit no_catalogue (ex_create 100) ''usr'' ''c1''
      (ex_state ex_three_units [])))) \<and>
   list_all unit_invariant (units (snd (updateUnit ''A'' (ex_update 3) ''c1''
      (ex_state ex_three_units [])))) \<and>
   list_all unit_invariant (units (snd (checkOutUnit (ex_checkout ''A'' 4) ''usr'' ''c1''
      (ex_state ex_three_units [])))) \<and>
   list_all unit_invariant (units (snd (checkOutMedicationFEFO (ex_request 20) ''usr'' ''c1''
      (ex_state ex_three_units ex_second_insert_fails)))) \<and>
   list_all2 keeps_invariant (units (ex_state ex_three_units []))
     (take (length (units (ex_state ex_three_units [])))
        (units (snd (createUnit no_catalogue (ex_create 100) ''usr'' ''c1''
           (ex_state ex_three_units []))))) \<and>
   list_all2 keeps_invariant (units (ex_state ex_three_units []))
     (units (snd (updateUnit ''A'' (ex_update 3) ''c1'' (ex_state ex_three_units [])))) \<and>
   list_all2 keeps_invariant (units (ex_state ex_three_units []))
     (units (snd (checkOutUnit (ex_checkout ''A'' 4) ''usr'' ''c1'' (ex_state ex_three_units [])))) \<and>
   list_all2 keeps_invariant (units (ex_state ex_three_units ex_second_insert_fails))
     (units (snd (checkOutMedicationFEFO (ex_request 20) ''usr'' ''c1''
        (ex_state ex_three_units ex_second_insert_fails))))"
proof -
  let ?s = "ex_state ex_three_units []"
  let ?t = "ex_state ex_three_units ex_second_insert_fails"
  have inv: "list_all unit_invariant (units ?s)"
    "list_all unit_invariant (units (snd (createUnit no_catalogue (ex_create 100) ''usr'' ''c1'' ?s)))"
    "list_all unit_invariant (units (snd (updateUnit ''A'' (ex_update 3) ''c1'' ?s)))"
    "list_all unit_invariant (units (snd (checkOutUnit (ex_checkout ''A'' 4) ''usr'' ''c1'' ?s)))"
    "list_all unit_invariant (units (snd (checkOutMedicationFEFO (ex_request 20) ''usr'' ''c1'' ?t)))"
    by code_simp+
  have h1: "\<forall>dd t. units (snd (no_catalogue dd t)) = units t"
    by (simp add: no_catalogue_def)
  have h2: "\<forall>r\<in>set (units ?s). unit_id r = ''A'' \<and> clinic_id r = ''c1'' \<and> unit_invariant r \<longrightarrow>
      unit_invariant (apply_unit_updates (ex_update 3) r)"
    by code_simp
  have h3: "0 \<le> co_quantity (ex_checkout ''A'' 4)"
    by code_simp
  have h4: "distinct (map unit_id (units ?t))"
    by code_simp
  from core_operations_keep_unit_invariant
    [of no_catalogue ?s "ex_create 100" "''usr''" "''c1''" "''A''" "ex_update 3" "ex_checkout ''A'' 4"]
    h1 h2 h3
  have a: "list_all2 keeps_invariant (units ?s)
     (take (length (units ?s))
        (units (snd (createUnit no_catalogue (ex_create 100) ''usr'' ''c1'' ?s))))"
    "list_all2 keeps_invariant (units ?s) (units (snd (updateUnit ''A'' (ex_update 3) ''c1'' ?s)))"
    "list_all2 keeps_invariant (units ?s)
       (units (snd (checkOutUnit (ex_checkout ''A'' 4) ''usr'' ''c1'' ?s)))"
    by blast+
  from core_operations_keep_unit_invariant
    [of no_catalogue ?t "ex_create 100" "''usr''" "''c1''" "''A''" "ex_update 3" "ex_checkout ''A'' 4"
      "ex_request 20"] h4
  have b: "list_all2 keeps_invariant (units ?t)
     (units (snd (checkOutMedicationFEFO (ex_request 20) ''usr'' ''c1'' ?t)))"
    by blast
  from inv a b show ?thesis
    by blast
qed

end
